(* ===== verification/Prelude.thy ===== *)
theory Prelude
  imports Complex_Main "HOL-Library.Word"
begin

text \<open>
  Shared vocabulary of the CKD predictor model (\<open>src/app.py\<close>).
  \<^item> Python's exceptions as values of \<open>py_error\<close>; a fallible step returns
    \<open>py_error + 'a\<close>, \<open>Inl\<close> the exception. \<open>ColumnsNotInIndex cs\<close> is the
    \<open>KeyError("[...] not in index")\<close> pandas raises when columns \<open>cs\<close> are selected
    from a frame that lacks them; \<open>DuplicateWidgetID l\<close> is Streamlit's error for a
    second widget with the same identity in one run.
  \<^item> A Python \<open>dict\<close> as an association list with unique keys in insertion order
    (\<open>pydict\<close>): \<open>d[k] = v\<close> overwrites in place when \<open>k\<close> is present and appends
    otherwise, which is the ordering CPython 3.7+ guarantees and on which
    \<open>pd.DataFrame([d])\<close> relies for its column order.
  \<^item> Python and NumPy floats as the exact rational they denote (\<open>pyfloat\<close>);
    the rounding the program's floats undergo is written out where it matters
    (theory \<open>Floats\<close>).
  \<^item> Round-half-to-even on rationals, the rounding CPython's float formatting
    applies to the exact binary value.
\<close>

named_theorems model_defs "definitions unfolded when a concrete run of the model is evaluated"

type_synonym feature = string
type_synonym pyfloat = rat
type_synonym ('k, 'v) pydict = "('k \<times> 'v) list"

datatype py_error =
    KeyError string
  | IndexError
  | ValueError string
  | FileNotFoundError string
  | ColumnsNotInIndex "string list"
  | DuplicateWidgetID string
  | AttributeError string
  | MediaFileStorageError string

subsection \<open>Dictionaries\<close>

definition dict_keys :: "('k, 'v) pydict \<Rightarrow> 'k list" where
  "dict_keys d = map fst d"

definition dict_get :: "('k, 'v) pydict \<Rightarrow> 'k \<Rightarrow> 'v option" where
  "dict_get d = map_of d"

text \<open>\<open>k in d\<close>\<close>
definition dict_contains :: "('k, 'v) pydict \<Rightarrow> 'k \<Rightarrow> bool" where
  "dict_contains d k \<longleftrightarrow> k \<in> set (dict_keys d)"

text \<open>\<open>d[k] = v\<close>: overwrite in place, or append a new key at the end.\<close>
fun dict_set :: "('k, 'v) pydict \<Rightarrow> 'k \<Rightarrow> 'v \<Rightarrow> ('k, 'v) pydict" where
  "dict_set [] k v = [(k, v)]"
| "dict_set ((a, b) # d) k v = (if a = k then (k, v) # d else (a, b) # dict_set d k v)"

text \<open>\<open>d[k]\<close> on a string-keyed dict: \<open>KeyError(k)\<close> when \<open>k\<close> is absent.\<close>
definition dict_getitem :: "(string, 'v) pydict \<Rightarrow> string \<Rightarrow> py_error + 'v" where
  "dict_getitem d k = (case dict_get d k of None \<Rightarrow> Inl (KeyError k) | Some v \<Rightarrow> Inr v)"

text \<open>A dict literal \<open>{k1: v1, k2: v2, ...}\<close>: later duplicates overwrite earlier ones.\<close>
definition dict_of_list :: "('k \<times> 'v) list \<Rightarrow> ('k, 'v) pydict" where
  "dict_of_list ps = foldl (\<lambda>d (k, v). dict_set d k v) [] ps"

declare dict_keys_def [model_defs] dict_get_def [model_defs] dict_contains_def [model_defs]
  dict_getitem_def [model_defs] dict_of_list_def [model_defs]

subsection \<open>Rounding and decimal digits\<close>

text \<open>
  The integer nearest to \<open>x\<close>, ties to the even neighbour: the rounding of
  CPython's \<open>float.__format__\<close> (\<open>PyOS_double_to_string\<close>, correctly rounded) and of
  IEEE 754 round-to-nearest-even.
\<close>

definition round_half_even :: "rat \<Rightarrow> int" where
  "round_half_even x =
     (let f = \<lfloor>x\<rfloor>; d = x - of_int f in
      if d < 1/2 then f else if 1/2 < d then f + 1 else if even f then f else f + 1)"

declare round_half_even_def [model_defs]

text \<open>The ASCII digit for \<open>n < 10\<close>.\<close>
definition digit_char :: "nat \<Rightarrow> char" where
  "digit_char n = char_of (48 + n)"

text \<open>\<open>str(n)\<close> for a natural number: the shortest decimal numeral.\<close>
fun show_nat :: "nat \<Rightarrow> string" where
  "show_nat n = (if n < 10 then [digit_char n] else show_nat (n div 10) @ [digit_char (n mod 10)])"

declare show_nat.simps [simp del]
declare digit_char_def [model_defs] show_nat.simps [model_defs]

text \<open>The value of a decimal digit character, and of a digit string.\<close>
definition digit_val :: "char \<Rightarrow> nat" where
  "digit_val c = of_char c - 48"

definition read_nat :: "string \<Rightarrow> nat" where
  "read_nat s = foldl (\<lambda>n c. 10 * n + digit_val c) 0 s"

subsection \<open>Lemmas on dictionaries\<close>

lemma dict_contains_iff [simp]: "dict_contains d k \<longleftrightarrow> k \<in> set (dict_keys d)"
  by (simp add: dict_contains_def)

lemma dict_get_None_iff [simp]: "dict_get d k = None \<longleftrightarrow> k \<notin> set (dict_keys d)"
  by (simp add: dict_keys_def dict_get_def map_of_eq_None_iff)

lemma dict_get_notin [simp]: "k \<notin> set (dict_keys d) \<Longrightarrow> dict_get d k = None"
  by simp

lemma dict_get_in: "k \<in> set (dict_keys d) \<Longrightarrow> \<exists>v. dict_get d k = Some v"
  by (cases "dict_get d k") auto

lemma dict_get_Some_in: "dict_get d k = Some v \<Longrightarrow> k \<in> set (dict_keys d)"
  by (cases "k \<in> set (dict_keys d)") auto

lemma find_SomeD: "find P xs = Some x \<Longrightarrow> P x \<and> x \<in> set xs"
  by (auto simp: find_Some_iff)

lemma dict_get_Nil [simp]: "dict_get [] k = None"
  by (simp add: dict_get_def)

lemma dict_get_Cons [simp]: "dict_get ((a, b) # d) k = (if k = a then Some b else dict_get d k)"
  by (simp add: dict_get_def)

lemma dict_keys_Nil [simp]: "dict_keys [] = []"
  and dict_keys_Cons [simp]: "dict_keys ((a, b) # d) = a # dict_keys d"
  by (simp_all add: dict_keys_def)

lemma dict_keys_append [simp]: "dict_keys (d @ e) = dict_keys d @ dict_keys e"
  by (simp add: dict_keys_def)

lemma dict_get_append: "dict_get (d @ e) k = (case dict_get d k of None \<Rightarrow> dict_get e k | Some v \<Rightarrow> Some v)"
  by (simp add: dict_get_def map_add_def map_of_append split: option.splits)

lemma dict_get_set [simp]: "dict_get (dict_set d k v) k' = (if k' = k then Some v else dict_get d k')"
  by (induction d k v rule: dict_set.induct) auto

lemma dict_set_present: "dict_contains d k \<Longrightarrow> dict_keys (dict_set d k v) = dict_keys d"
  by (induction d k v rule: dict_set.induct) auto

lemma dict_set_absent: "\<not> dict_contains d k \<Longrightarrow> dict_set d k v = d @ [(k, v)]"
  by (induction d k v rule: dict_set.induct) (auto split: if_splits)

lemma dict_keys_set: "dict_keys (dict_set d k v) =
    (if dict_contains d k then dict_keys d else dict_keys d @ [k])"
  by (simp add: dict_set_present dict_set_absent)

lemma distinct_dict_set: "distinct (dict_keys d) \<Longrightarrow> distinct (dict_keys (dict_set d k v))"
  by (simp add: dict_keys_set)

lemma dict_getitem_Inr_iff [simp]: "dict_getitem d k = Inr v \<longleftrightarrow> dict_get d k = Some v"
  by (cases "dict_get d k") (simp_all add: dict_getitem_def del: dict_get_None_iff)

lemma dict_getitem_Inl_iff [simp]: "dict_getitem d k = Inl e \<longleftrightarrow> k \<notin> set (dict_keys d) \<and> e = KeyError k"
  by (cases "dict_get d k") (auto simp: dict_getitem_def simp flip: dict_get_None_iff)

lemma dict_get_foldl_set:
  "dict_get (foldl (\<lambda>d (k, v). dict_set d k v) d ps) k =
   (case map_of (rev ps) k of None \<Rightarrow> dict_get d k | Some v \<Rightarrow> Some v)"
  by (induction ps arbitrary: d) (auto simp: map_of_append split: option.splits)

lemma foldl_dict_set_distinct:
  "distinct (dict_keys d @ map fst ps) \<Longrightarrow> foldl (\<lambda>d (k, v). dict_set d k v) d ps = d @ ps"
proof (induction ps arbitrary: d)
  case Nil
  then show ?case by simp
next
  case (Cons p ps)
  obtain k v where p: "p = (k, v)" by fastforce
  with Cons.prems have "dict_set d k v = d @ [(k, v)]" by (simp add: dict_set_absent)
  moreover from Cons.prems p have "distinct (dict_keys (d @ [(k, v)]) @ map fst ps)" by simp
  ultimately show ?case using Cons.IH p by simp
qed

lemma dict_of_list_distinct: "distinct (map fst ps) \<Longrightarrow> dict_of_list ps = ps"
  using foldl_dict_set_distinct [of "[]" ps] by (simp add: dict_of_list_def)

lemma dict_get_of_list: "dict_get (dict_of_list ps) k = map_of (rev ps) k"
  by (simp add: dict_of_list_def dict_get_foldl_set split: option.splits)

lemma map_of_graph: "x \<in> set xs \<Longrightarrow> map_of (map (\<lambda>x. (x, g x)) xs) x = Some (g x)"
  by (induction xs) auto

lemma dict_get_of_distinct: "distinct (dict_keys d) \<Longrightarrow> (k, v) \<in> set d \<Longrightarrow> dict_get d k = Some v"
  by (simp add: dict_get_def dict_keys_def)

subsection \<open>Round half to even\<close>


lemma round_half_even_of_int [simp]: "round_half_even (of_int k) = k"
  by (simp add: round_half_even_def)

lemma round_half_even_error: "\<bar>x - of_int (round_half_even x)\<bar> \<le> 1/2"
proof -
  have "of_int \<lfloor>x\<rfloor> \<le> x" "x < of_int \<lfloor>x\<rfloor> + 1"
    using floor_correct [of x] by simp_all
  then show ?thesis
    by (auto simp: round_half_even_def Let_def)
qed

lemma round_half_even_mono: "x \<le> y \<Longrightarrow> round_half_even x \<le> round_half_even y"
proof -
  assume xy: "x \<le> y"
  have fl: "\<lfloor>x\<rfloor> \<le> \<lfloor>y\<rfloor>" using xy by (rule floor_mono)
  show ?thesis
  proof (cases "\<lfloor>x\<rfloor> = \<lfloor>y\<rfloor>")
    case True
    with xy show ?thesis by (auto simp: round_half_even_def Let_def)
  next
    case False
    with fl have "\<lfloor>x\<rfloor> + 1 \<le> \<lfloor>y\<rfloor>" by simp
    then show ?thesis by (auto simp: round_half_even_def Let_def)
  qed
qed

lemma round_half_even_nonneg: "0 \<le> x \<Longrightarrow> 0 \<le> round_half_even x"
  using round_half_even_mono [of 0 x] round_half_even_of_int [of 0] by simp

subsection \<open>Decimal digits\<close>

lemma digit_val_digit_char [simp]: "n < 10 \<Longrightarrow> digit_val (digit_char n) = n"
  by (simp add: digit_val_def digit_char_def)

lemma read_nat_snoc [simp]: "read_nat (s @ [c]) = 10 * read_nat s + digit_val c"
  by (simp add: read_nat_def)

lemma read_show_nat: "read_nat (show_nat n) = n"
proof (induction n rule: show_nat.induct)
  case (1 n)
  show ?case
  proof (cases "n < 10")
    case True
    then show ?thesis by (simp add: show_nat.simps [of n] read_nat_def)
  next
    case False
    with "1.IH" show ?thesis by (simp add: show_nat.simps [of n])
  qed
qed

lemma show_nat_digits: "\<forall>c\<in>set (show_nat n). c \<in> digit_char ` {0..<10}"
proof (induction n rule: show_nat.induct)
  case (1 n)
  then show ?case by (subst show_nat.simps) auto
qed

lemma show_nat_not_Nil: "show_nat n \<noteq> []"
  by (simp add: show_nat.simps [of n])

text \<open>A number below \<open>10 ^ (k + 1)\<close> has at most \<open>k + 1\<close> digits.\<close>
lemma show_nat_length: "n < 10 ^ Suc k \<Longrightarrow> length (show_nat n) \<le> Suc k"
proof (induction n arbitrary: k rule: show_nat.induct)
  case (1 n)
  show ?case
  proof (cases "n < 10")
    case True
    then show ?thesis by (simp add: show_nat.simps)
  next
    case False
    with "1.prems" obtain k' where k: "k = Suc k'" by (cases k) auto
    with "1.prems" have "n div 10 < 10 ^ Suc k'" by (simp add: less_mult_imp_div_less)
    with "1.IH" [OF False] have "length (show_nat (n div 10)) \<le> Suc k'" .
    with False k show ?thesis by (simp add: show_nat.simps [of n])
  qed
qed

subsection \<open>Lists\<close>

text \<open>The first element of \<open>g # gs\<close> whose key repeats an earlier key or one of \<open>U\<close>,
  when \<open>g\<close>'s own key is fresh, is the first such element of \<open>gs\<close> with \<open>g\<close>'s key added.\<close>
lemma first_dup_Cons:
  assumes "h g \<notin> set U"
  shows "(\<exists>pre f post. g # gs = pre @ f # post \<and> distinct (map h pre) \<and> set (map h pre) \<inter> set U = {} \<and>
            h f \<in> set (map h pre) \<union> set U \<and> P f) \<longleftrightarrow>
         (\<exists>pre f post. gs = pre @ f # post \<and> distinct (map h pre) \<and> set (map h pre) \<inter> set (h g # U) = {} \<and>
            h f \<in> set (map h pre) \<union> set (h g # U) \<and> P f)"
proof
  assume "\<exists>pre f post. g # gs = pre @ f # post \<and> distinct (map h pre) \<and> set (map h pre) \<inter> set U = {} \<and>
            h f \<in> set (map h pre) \<union> set U \<and> P f"
  then obtain pre f post where eq: "g # gs = pre @ f # post" and d: "distinct (map h pre)"
    and dj: "set (map h pre) \<inter> set U = {}" and m: "h f \<in> set (map h pre) \<union> set U" and p: "P f"
    by blast
  show "\<exists>pre f post. gs = pre @ f # post \<and> distinct (map h pre) \<and> set (map h pre) \<inter> set (h g # U) = {} \<and>
            h f \<in> set (map h pre) \<union> set (h g # U) \<and> P f"
  proof (cases pre)
    case Nil
    with eq m assms show ?thesis by simp
  next
    case (Cons g' pre')
    with eq have "g' = g" "gs = pre' @ f # post" by simp_all
    with Cons d dj m p show ?thesis by (intro exI [of _ pre'] exI [of _ f] exI [of _ post]) auto
  qed
next
  assume "\<exists>pre f post. gs = pre @ f # post \<and> distinct (map h pre) \<and> set (map h pre) \<inter> set (h g # U) = {} \<and>
            h f \<in> set (map h pre) \<union> set (h g # U) \<and> P f"
  then obtain pre f post where eq: "gs = pre @ f # post" and d: "distinct (map h pre)"
    and dj: "set (map h pre) \<inter> set (h g # U) = {}" and m: "h f \<in> set (map h pre) \<union> set (h g # U)" and p: "P f"
    by blast
  have "g # gs = (g # pre) @ f # post \<and> distinct (map h (g # pre)) \<and> set (map h (g # pre)) \<inter> set U = {} \<and>
      h f \<in> set (map h (g # pre)) \<union> set U \<and> P f"
    using eq d dj m p assms by auto
  then show "\<exists>pre f post. g # gs = pre @ f # post \<and> distinct (map h pre) \<and> set (map h pre) \<inter> set U = {} \<and>
            h f \<in> set (map h pre) \<union> set U \<and> P f" by blast
qed

end
