(* ===== verification/Vectorizer.thy ===== *)
theory Vectorizer
  imports Prelude
begin

text \<open>
  The feature vectorizer, \<open>src/app.py\<close> lines 58--66: the median backfill loop over
  \<open>model.feature_names_in_\<close> that mutates \<open>input_data\<close> in place
  (\<open>fill_missing\<close>), the column selection \<open>pd.DataFrame([input_data])[full_features]\<close>
  (\<open>select_columns\<close>) and their composition (\<open>vectorize\<close>). The value type is a
  parameter: the code only moves values. \<open>vector_spec\<close> is the contract of the spec
  (section 4.1): every required feature, user value first, median otherwise, in the
  model's order, and a failure naming the first feature that has neither.
\<close>

type_synonym 'v row = "(feature \<times> 'v) list"

text \<open>
  \<^verbatim>\<open>for feat in full_features:
    if feat not in input_data:
        input_data[feat] = median_values[feat]\<close>
  Arguments: \<open>full_features\<close>, \<open>median_values\<close>, \<open>input_data\<close>.
\<close>
fun fill_missing :: "feature list \<Rightarrow> (feature, 'v) pydict \<Rightarrow> (feature, 'v) pydict \<Rightarrow> py_error + (feature, 'v) pydict" where
  "fill_missing [] median d = Inr d"
| "fill_missing (f # fs) median d =
     (if dict_contains d f then fill_missing fs median d
      else (case dict_getitem median f of
              Inl e \<Rightarrow> Inl e
            | Inr v \<Rightarrow> fill_missing fs median (dict_set d f v)))"

text \<open>
  \<open>pd.DataFrame([d])[cols]\<close>: a one-row frame whose columns are the keys of \<open>d\<close>, then
  the columns \<open>cols\<close> in that order (repeats repeated); a column that is not a key makes
  pandas raise \<open>KeyError\<close> listing every missing one.
\<close>
definition select_columns :: "(feature, 'v) pydict \<Rightarrow> feature list \<Rightarrow> py_error + 'v row" where
  "select_columns d cols =
     (let missing = filter (\<lambda>c. \<not> dict_contains d c) cols in
      if missing = [] then Inr (map (\<lambda>c. (c, case dict_get d c of Some v \<Rightarrow> v)) cols)
      else Inl (ColumnsNotInIndex missing))"

text \<open>Lines 58--66 together.\<close>
definition vectorize :: "feature list \<Rightarrow> (feature, 'v) pydict \<Rightarrow> (feature, 'v) pydict \<Rightarrow> py_error + 'v row" where
  "vectorize full median input =
     (case fill_missing full median input of
        Inl e \<Rightarrow> Inl e
      | Inr d \<Rightarrow> select_columns d full)"

subsection \<open>The contract\<close>

text \<open>The value a required feature gets: the user's, else the default.\<close>
definition resolve :: "(feature, 'v) pydict \<Rightarrow> (feature, 'v) pydict \<Rightarrow> feature \<Rightarrow> 'v option" where
  "resolve median input f = (case dict_get input f of Some v \<Rightarrow> Some v | None \<Rightarrow> dict_get median f)"

definition vector_spec :: "feature list \<Rightarrow> (feature, 'v) pydict \<Rightarrow> (feature, 'v) pydict \<Rightarrow> py_error + 'v row" where
  "vector_spec full median input =
     (case find (\<lambda>f. resolve median input f = None) full of
        Some f \<Rightarrow> Inl (KeyError f)
      | None \<Rightarrow> Inr (map (\<lambda>f. (f, case resolve median input f of Some v \<Rightarrow> v)) full))"

text \<open>The scenarios of spec section 8: required \<open>[age, hemo, sc]\<close>, user input
  \<open>{age: 45, hemo: 13.2}\<close>, defaults \<open>{age: 40, hemo: 12.0, sc: 1.1}\<close>.\<close>
definition scenario_full :: "feature list" where
  "scenario_full = [''age'', ''hemo'', ''sc'']"

definition scenario_input :: "(feature, rat) pydict" where
  "scenario_input = [(''age'', 45), (''hemo'', 66 / 5)]"

definition scenario_median :: "(feature, rat) pydict" where
  "scenario_median = [(''age'', 40), (''hemo'', 12), (''sc'', 11 / 10)]"

declare scenario_full_def [model_defs] scenario_input_def [model_defs] scenario_median_def [model_defs]

declare select_columns_def [model_defs] vectorize_def [model_defs] resolve_def [model_defs]
  vector_spec_def [model_defs]

subsection \<open>The backfill loop\<close>

text \<open>One backfill step does not change what any feature resolves to.\<close>
lemma resolve_fill_step:
  "f \<notin> set (dict_keys d) \<Longrightarrow> dict_get median f = Some v \<Longrightarrow>
   resolve median (dict_set d f v) = resolve median d"
  by (auto simp: resolve_def fun_eq_iff split: option.splits)

text \<open>The loop fails exactly at the first feature that resolves to nothing.\<close>
lemma fill_missing_Inl:
  "fill_missing fs median d = Inl e \<longleftrightarrow>
   (\<exists>f. find (\<lambda>f. resolve median d f = None) fs = Some f \<and> e = KeyError f)"
proof (induction fs arbitrary: d)
  case Nil
  then show ?case by simp
next
  case (Cons f fs)
  show ?case
  proof (cases "f \<in> set (dict_keys d)")
    case True
    then have "resolve median d f \<noteq> None"
      by (auto simp: resolve_def split: option.splits)
    with True Cons.IH show ?thesis by auto
  next
    case False
    show ?thesis
    proof (cases "dict_get median f")
      case None
      with False show ?thesis by (auto simp: resolve_def dict_getitem_def)
    next
      case (Some v)
      with False have "resolve median d f \<noteq> None"
        by (simp add: resolve_def)
      with False Some Cons.IH [of "dict_set d f v"] show ?thesis
        by (auto simp: dict_getitem_def resolve_fill_step)
    qed
  qed
qed

text \<open>
  When every feature resolves, the loop returns a dictionary that extends the input
  (entries already there stay, in place), and every required feature is then present
  with the value it resolves to.
\<close>
lemma fill_missing_Inr:
  "find (\<lambda>f. resolve median d f = None) fs = None \<Longrightarrow>
   \<exists>ext. fill_missing fs median d = Inr (d @ ext) \<and>
         (\<forall>f\<in>set fs. dict_get (d @ ext) f = resolve median d f) \<and>
         (\<forall>f. f \<notin> set fs \<longrightarrow> dict_get (d @ ext) f = dict_get d f)"
proof (induction fs arbitrary: d)
  case Nil
  then show ?case by (intro exI [of _ "[]"]) simp
next
  case (Cons f fs)
  show ?case
  proof (cases "f \<in> set (dict_keys d)")
    case True
    then obtain u where du: "dict_get d f = Some u" by (blast dest: dict_get_in)
    then have rf: "resolve median d f = Some u" by (simp add: resolve_def)
    with Cons.prems have "find (\<lambda>f. resolve median d f = None) fs = None" by simp
    from Cons.IH [OF this] obtain ext where
      run: "fill_missing fs median d = Inr (d @ ext)" and
      inn: "\<forall>g\<in>set fs. dict_get (d @ ext) g = resolve median d g" and
      out: "\<forall>g. g \<notin> set fs \<longrightarrow> dict_get (d @ ext) g = dict_get d g"
      by blast
    have "dict_get (d @ ext) f = resolve median d f"
      using du rf by (simp add: dict_get_append)
    with True run inn out show ?thesis by auto
  next
    case False
    with Cons.prems have "f \<in> set (dict_keys median)"
      by (auto simp: resolve_def split: option.splits if_splits)
    then obtain v where med: "dict_get median f = Some v"
      by (blast dest: dict_get_in)
    let ?d = "dict_set d f v"
    have d': "?d = d @ [(f, v)]" using False by (simp add: dict_set_absent)
    have res: "resolve median ?d = resolve median d"
      using False med by (rule resolve_fill_step)
    from Cons.prems have "find (\<lambda>f. resolve median ?d f = None) fs = None"
      by (simp add: res split: if_splits)
    from Cons.IH [OF this] obtain ext where
      run: "fill_missing fs median ?d = Inr (?d @ ext)" and
      inn: "\<forall>g\<in>set fs. dict_get (?d @ ext) g = resolve median d g" and
      out: "\<forall>g. g \<notin> set fs \<longrightarrow> dict_get (?d @ ext) g = dict_get ?d g"
      by (auto simp: res)
    have "fill_missing (f # fs) median d = Inr (d @ ((f, v) # ext))"
      using False med run d' by (simp add: dict_getitem_def)
    moreover have "\<forall>g\<in>set (f # fs). dict_get (d @ ((f, v) # ext)) g = resolve median d g"
      using inn out False med d' by (auto simp: resolve_def dict_get_append split: option.splits)
    moreover have "\<forall>g. g \<notin> set (f # fs) \<longrightarrow> dict_get (d @ ((f, v) # ext)) g = dict_get d g"
      using out d' by (simp add: dict_get_append split: option.splits)
    ultimately show ?thesis by blast
  qed
qed

subsection \<open>The vectorizer implements its contract\<close>

lemma select_columns_complete:
  "\<forall>c\<in>set cols. dict_get d c = g c \<and> g c \<noteq> None \<Longrightarrow>
   select_columns d cols = Inr (map (\<lambda>c. (c, case g c of Some v \<Rightarrow> v)) cols)"
proof -
  assume all: "\<forall>c\<in>set cols. dict_get d c = g c \<and> g c \<noteq> None"
  then have "\<forall>c\<in>set cols. c \<in> set (dict_keys d)"
    by (metis dict_get_None_iff)
  with all show ?thesis
    by (auto simp: select_columns_def Let_def filter_empty_conv)
qed

lemma vectorize_eq_vector_spec: "vectorize full median input = vector_spec full median input"
proof (cases "find (\<lambda>f. resolve median input f = None) full")
  case None
  then obtain ext where
    run: "fill_missing full median input = Inr (input @ ext)" and
    inn: "\<forall>f\<in>set full. dict_get (input @ ext) f = resolve median input f"
    using fill_missing_Inr by blast
  from None have "\<forall>f\<in>set full. resolve median input f \<noteq> None"
    by (simp add: find_None_iff)
  with inn have "select_columns (input @ ext) full =
      Inr (map (\<lambda>f. (f, case resolve median input f of Some v \<Rightarrow> v)) full)"
    by (intro select_columns_complete) simp
  with run None show ?thesis by (simp add: vectorize_def vector_spec_def)
next
  case (Some f)
  then have "fill_missing full median input = Inl (KeyError f)"
    by (simp add: fill_missing_Inl)
  with Some show ?thesis by (simp add: vectorize_def vector_spec_def)
qed

text \<open>What the contract says of one required feature, and of the row's shape.\<close>

lemma vector_spec_Inr:
  "vector_spec full median input = Inr row \<longleftrightarrow>
   (\<forall>f\<in>set full. resolve median input f \<noteq> None) \<and>
   row = map (\<lambda>f. (f, case resolve median input f of Some v \<Rightarrow> v)) full"
  by (auto simp: vector_spec_def find_None_iff split: option.splits dest: find_SomeD)

lemma vector_spec_lookup:
  assumes "vector_spec full median input = Inr row" and "f \<in> set full"
  shows "map_of row f = resolve median input f"
proof -
  from assms(1) have all: "\<forall>f\<in>set full. resolve median input f \<noteq> None"
    and row: "row = map (\<lambda>f. (f, case resolve median input f of Some v \<Rightarrow> v)) full"
    by (simp_all add: vector_spec_Inr)
  from assms(2) row have "map_of row f = Some (case resolve median input f of Some v \<Rightarrow> v)"
    by (simp add: map_of_graph)
  with all assms(2) show ?thesis by (auto split: option.splits)
qed

lemma resolve_None_iff [simp]:
  "resolve median input f = None \<longleftrightarrow> f \<notin> set (dict_keys input) \<and> f \<notin> set (dict_keys median)"
  by (cases "dict_get input f") (auto simp: resolve_def dest: dict_get_Some_in)

lemmas vectorize_facts = vectorize_eq_vector_spec vector_spec_Inr vector_spec_lookup

lemma vectorize_covered:
  assumes "set full \<subseteq> set (dict_keys input) \<union> set (dict_keys median)"
  shows "\<exists>row. vectorize full median input = Inr row"
  using assms by (auto simp: vectorize_facts)

lemma fill_missing_distinct:
  "fill_missing fs median d = Inr d' \<Longrightarrow> distinct (dict_keys d) \<Longrightarrow> distinct (dict_keys d')"
proof (induction fs arbitrary: d)
  case Nil
  then show ?case by simp
next
  case (Cons f fs)
  then show ?case
    by (auto simp: dict_getitem_def distinct_dict_set split: if_splits option.splits)
qed

subsection \<open>Properties of the vectorizer\<close>

text \<open>C2: the backfill loop followed by the pandas column selection computes exactly
  the contract of spec section 4.1, on every input, errors included.\<close>
theorem vectorize_refines_spec: "vectorize full median input = vector_spec full median input"
  by (rule vectorize_eq_vector_spec)

text \<open>C3: a required feature the user entered keeps the user's value in the row,
  whatever the default table holds for it.\<close>
theorem vectorize_user_value:
  assumes "vectorize full median input = Inr row" and "f \<in> set full"
    and "dict_get input f = Some v"
  shows "map_of row f = Some v"
  using vector_spec_lookup [OF assms(1) [unfolded vectorize_eq_vector_spec] assms(2)] assms(3)
  by (simp add: resolve_def)

text \<open>C4: a required feature the user did not enter gets the default table's value.\<close>
theorem vectorize_default_value:
  assumes "vectorize full median input = Inr row" and "f \<in> set full"
    and "f \<notin> set (dict_keys input)"
  shows "map_of row f = dict_get median f"
  using vector_spec_lookup [OF assms(1) [unfolded vectorize_eq_vector_spec] assms(2)] assms(3)
  by (simp add: resolve_def)

text \<open>C5: the row's columns are the model's required features, in the model's order,
  whatever order the user's entries were made in.\<close>
theorem vectorize_column_order:
  assumes "vectorize full median input = Inr row"
  shows "map fst row = full"
  using assms by (auto simp: vectorize_facts comp_def)

text \<open>C6: the vectorizer fails only with a \<open>KeyError\<close> that names a required feature
  missing from both the user input and the default table, the first such in the
  model's order; the column selection never fails.\<close>
theorem vectorize_error:
  "vectorize full median input = Inl e \<longleftrightarrow>
   (\<exists>f. find (\<lambda>f. f \<notin> set (dict_keys input) \<and> f \<notin> set (dict_keys median)) full = Some f \<and>
        e = KeyError f)"
proof -
  have "(\<lambda>f. resolve median input f = None) =
        (\<lambda>f. f \<notin> set (dict_keys input) \<and> f \<notin> set (dict_keys median))"
    by simp
  then show ?thesis
    by (auto simp: vectorize_eq_vector_spec vector_spec_def split: option.splits)
qed

text \<open>C9: vectorizing is idempotent: the row, read back as a dict, vectorizes to itself,
  under any default table.\<close>
theorem vectorize_idempotent:
  assumes "vectorize full median input = Inr row"
  shows "vectorize full median' (dict_of_list row) = Inr row"
proof -
  from assms have all: "\<forall>f\<in>set full. resolve median input f \<noteq> None"
    and row: "row = map (\<lambda>f. (f, case resolve median input f of Some v \<Rightarrow> v)) full"
    by (simp_all add: vectorize_facts)
  have get: "dict_get (dict_of_list row) f = Some (case resolve median input f of Some v \<Rightarrow> v)"
    if "f \<in> set full" for f
    using that row by (simp add: dict_get_of_list rev_map map_of_graph)
  then have "\<forall>f\<in>set full. resolve median' (dict_of_list row) f =
      Some (case resolve median input f of Some v \<Rightarrow> v)"
    by (simp add: resolve_def)
  with row show ?thesis by (simp add: vectorize_facts)
qed

text \<open>C10: the backfill loop only appends: the user's entries stay in place and in
  order, and keys stay distinct.\<close>
theorem fill_missing_extends:
  assumes "fill_missing full median input = Inr d" and "distinct (dict_keys input)"
  shows "\<exists>ext. d = input @ ext \<and> distinct (dict_keys d)"
proof -
  have "find (\<lambda>f. resolve median input f = None) full = None"
    using assms(1) fill_missing_Inl [of full median input] by (cases "find (\<lambda>f. resolve median input f = None) full") auto
  from fill_missing_Inr [OF this] assms(1) obtain ext where "d = input @ ext" by auto
  with fill_missing_distinct [OF assms] show ?thesis by blast
qed

subsection \<open>Witnesses\<close>

text \<open>The hypotheses of the vectorizer properties hold on the spec's scenario.\<close>

theorem vectorize_user_value_witness:
  "vectorize scenario_full scenario_median scenario_input = Inr [(''age'', 45), (''hemo'', 66 / 5), (''sc'', 11 / 10)] \<and>
   ''hemo'' \<in> set scenario_full \<and> dict_get scenario_input ''hemo'' = Some (66 / 5) \<and>
   map_of [(''age'', 45), (''hemo'', 66 / 5), (''sc'', 11 / 10 :: rat)] ''hemo'' = Some (66 / 5)"
proof -
  have run: "vectorize scenario_full scenario_median scenario_input = Inr [(''age'', 45), (''hemo'', 66 / 5), (''sc'', 11 / 10)]"
    by (simp add: model_defs)
  show ?thesis
    using run vectorize_user_value [OF run, of "''hemo''" "66 / 5"] by (simp add: model_defs)
qed

theorem vectorize_default_value_witness:
  "vectorize scenario_full scenario_median scenario_input = Inr [(''age'', 45), (''hemo'', 66 / 5), (''sc'', 11 / 10)] \<and>
   ''sc'' \<in> set scenario_full \<and> ''sc'' \<notin> set (dict_keys scenario_input) \<and>
   map_of [(''age'', 45), (''hemo'', 66 / 5), (''sc'', 11 / 10 :: rat)] ''sc'' = dict_get scenario_median ''sc''"
proof -
  have run: "vectorize scenario_full scenario_median scenario_input = Inr [(''age'', 45), (''hemo'', 66 / 5), (''sc'', 11 / 10)]"
    by (simp add: model_defs)
  show ?thesis
    using run vectorize_default_value [OF run, of "''sc''"] by (simp add: model_defs)
qed

theorem vectorize_column_order_witness:
  "vectorize scenario_full scenario_median [(''hemo'', 66 / 5), (''age'', 45)] = Inr [(''age'', 45), (''hemo'', 66 / 5), (''sc'', 11 / 10)] \<and>
   map fst [(''age'', 45 :: rat), (''hemo'', 66 / 5), (''sc'', 11 / 10)] = scenario_full"
proof -
  have run: "vectorize scenario_full scenario_median [(''hemo'', 66 / 5), (''age'', 45)] = Inr [(''age'', 45), (''hemo'', 66 / 5), (''sc'', 11 / 10)]"
    by (simp add: model_defs)
  show ?thesis using run vectorize_column_order [OF run] by simp
qed

theorem vectorize_error_witness:
  "vectorize scenario_full [(''age'', 40), (''hemo'', 12)] scenario_input = Inl (KeyError ''sc'')"
  using vectorize_error [of scenario_full "[(''age'', 40), (''hemo'', 12)]" scenario_input "KeyError ''sc''"]
  by (simp add: model_defs)

theorem vectorize_idempotent_witness:
  "vectorize scenario_full [] (dict_of_list [(''age'', 45), (''hemo'', 66 / 5), (''sc'', 11 / 10)]) =
   Inr [(''age'', 45), (''hemo'', 66 / 5), (''sc'', 11 / 10 :: rat)]"
proof -
  have run: "vectorize scenario_full scenario_median scenario_input = Inr [(''age'', 45), (''hemo'', 66 / 5), (''sc'', 11 / 10)]"
    by (simp add: model_defs)
  show ?thesis using vectorize_idempotent [OF run, of "[]"] .
qed

theorem fill_missing_extends_witness:
  "fill_missing scenario_full scenario_median scenario_input =
     Inr [(''age'', 45), (''hemo'', 66 / 5), (''sc'', 11 / 10)] \<and>
   distinct (dict_keys scenario_input) \<and>
   (\<exists>ext. [(''age'', 45), (''hemo'', 66 / 5), (''sc'', 11 / 10 :: rat)] = scenario_input @ ext \<and>
          distinct (dict_keys [(''age'', 45), (''hemo'', 66 / 5), (''sc'', 11 / 10 :: rat)]))"
proof -
  have run: "fill_missing scenario_full scenario_median scenario_input = Inr [(''age'', 45), (''hemo'', 66 / 5), (''sc'', 11 / 10)]"
    by (simp add: model_defs)
  have dist: "distinct (dict_keys scenario_input)" by (simp add: model_defs)
  show ?thesis using run dist fill_missing_extends [OF run dist] by blast
qed

end
