(* ===== verification/Floats.thy ===== *)
theory Floats
  imports Prelude
begin

text \<open>
  The floating-point values the program handles and how it prints them.
  \<^item> \<open>prediction_proba\<close> (\<open>src/app.py\<close> line 70) is a NumPy \<open>float32\<close>: XGBoost's
    \<open>predict_proba\<close> returns a \<open>float32\<close> array. \<open>f32_value\<close> decodes an IEEE 754
    binary32 bit pattern (\<open>32 word\<close>) to the exact rational it denotes
    (sign, biased exponent, fraction; subnormals included). Infinities and NaN are
    not probabilities and their decoding is not used.
  \<^item> The literal \<open>0.85\<close> of line 74 is a binary64 double; \<open>round_binary64\<close> rounds a
    rational to the nearest double, ties to even (normal and subnormal range; no
    overflow, the values rounded here are at most 100).
  \<^item> \<open>f"{prediction_proba:.2%}"\<close> (lines 75, 77, 79): NumPy converts the scalar to a
    Python float (exact), CPython's \<open>float.__format__\<close> multiplies it by 100 in
    double arithmetic and prints the product with two decimals, correctly rounded
    (\<open>format_percent\<close>, \<open>fixed2\<close>).
\<close>

subsection \<open>Definitions\<close>

definition f32_sign :: "32 word \<Rightarrow> bool" where
  "f32_sign w = bit w 31"

definition f32_exponent :: "32 word \<Rightarrow> int" where
  "f32_exponent w = uint (take_bit 8 (drop_bit 23 w))"

definition f32_fraction :: "32 word \<Rightarrow> int" where
  "f32_fraction w = uint (take_bit 23 w)"

definition f32_finite :: "32 word \<Rightarrow> bool" where
  "f32_finite w \<longleftrightarrow> f32_exponent w \<noteq> 255"

text \<open>The value is \<open>significand * 2 ^ scale\<close>, the significand carrying the sign.\<close>
definition f32_significand :: "32 word \<Rightarrow> int" where
  "f32_significand w =
     (let m = (if f32_exponent w = 0 then f32_fraction w else 2 ^ 23 + f32_fraction w)
      in if f32_sign w then - m else m)"

definition f32_scale :: "32 word \<Rightarrow> int" where
  "f32_scale w = (if f32_exponent w = 0 then -149 else f32_exponent w - 150)"

definition f32_value :: "32 word \<Rightarrow> rat" where
  "f32_value w = of_int (f32_significand w) * 2 powi f32_scale w"

text \<open>Number of binary digits of a nonnegative integer.\<close>
function nbits :: "int \<Rightarrow> int" where
  "nbits n = (if n \<le> 0 then 0 else 1 + nbits (n div 2))"
  by pat_completeness auto
termination
  by (relation "measure (\<lambda>n. nat n)") auto

declare nbits.simps [simp del]

text \<open>For \<open>x > 0\<close>, the \<open>e\<close> with \<open>2 ^ e \<le> x < 2 ^ (e + 1)\<close>.\<close>
definition binade :: "rat \<Rightarrow> int" where
  "binade x =
     (let (a, b) = quotient_of x; e = nbits a - nbits b
      in if 2 powi e \<le> x then e else e - 1)"

text \<open>Round to the nearest binary64 value, ties to even: 53 significant bits, the
  exponent of the last bit at least -1074 (subnormals).\<close>
definition round_binary64 :: "rat \<Rightarrow> rat" where
  "round_binary64 x =
     (if x = 0 then 0
      else let q = max (binade \<bar>x\<bar> - 52) (-1074)
           in sgn x * of_int (round_half_even (\<bar>x\<bar> * 2 powi (- q))) * 2 powi q)"

text \<open>\<open>'%.2f' % x\<close> for the double whose exact value is \<open>x\<close>.\<close>
definition fixed2 :: "rat \<Rightarrow> string" where
  "fixed2 x =
     (let n = nat (round_half_even (\<bar>x\<bar> * 100))
      in (if x < 0 then ''-'' else []) @ show_nat (n div 100) @ ''.'' @
         [digit_char (n mod 100 div 10), digit_char (n mod 10)])"

text \<open>\<open>format(p, '.2%')\<close>: \<open>p * 100\<close> in double arithmetic, then \<open>'%.2f'\<close> and a percent sign.\<close>
definition format_percent :: "rat \<Rightarrow> string" where
  "format_percent p = fixed2 (round_binary64 (p * 100)) @ ''%''"

text \<open>Reading a printed \<open>"I.FF"\<close> back as the integer \<open>100 * I + FF\<close>.\<close>
definition read_fixed2 :: "string \<Rightarrow> nat" where
  "read_fixed2 s = 100 * read_nat (takeWhile (\<lambda>c. c \<noteq> CHR ''.'') s) +
                   read_nat (drop 1 (dropWhile (\<lambda>c. c \<noteq> CHR ''.'') s))"

declare f32_sign_def [model_defs] f32_exponent_def [model_defs] f32_fraction_def [model_defs]
  f32_significand_def [model_defs] f32_scale_def [model_defs] f32_value_def [model_defs]
  nbits.simps [model_defs] binade_def [model_defs] round_binary64_def [model_defs]
  fixed2_def [model_defs] format_percent_def [model_defs] read_fixed2_def [model_defs]
  f32_finite_def [model_defs]

subsection \<open>Lemmas\<close>

lemma nbits_bounds:
  "0 < n \<Longrightarrow> 1 \<le> nbits n \<and> 2 ^ nat (nbits n - 1) \<le> n \<and> n < 2 ^ nat (nbits n)"
proof (induction n rule: nbits.induct)
  case (1 n)
  show ?case
  proof (cases "n = 1")
    case True
    then show ?thesis by (simp add: nbits.simps)
  next
    case False
    with "1.prems" have pos: "0 < n div 2" by simp
    with "1.IH" "1.prems" have ih: "1 \<le> nbits (n div 2)" "2 ^ nat (nbits (n div 2) - 1) \<le> n div 2"
      "n div 2 < 2 ^ nat (nbits (n div 2))" by auto
    have eq: "nbits n = 1 + nbits (n div 2)" using "1.prems" by (simp add: nbits.simps [of n])
    define k where "k = nat (nbits (n div 2))"
    have k1: "1 \<le> k" using ih(1) by (simp add: k_def)
    have "nat (nbits n - 1) = k" "nat (nbits n) = Suc k" using eq ih(1) by (simp_all add: k_def)
    moreover have "(2::int) ^ k \<le> n"
    proof -
      have ks: "nat (nbits (n div 2) - 1) = k - 1" using ih(1) by (simp add: k_def nat_diff_distrib)
      have "(2::int) ^ k = 2 * 2 ^ (k - 1)" using k1 by (simp add: power_eq_if)
      also have "\<dots> \<le> 2 * (n div 2)" using ih(2) ks by simp
      also have "\<dots> \<le> n" by simp
      finally show ?thesis .
    qed
    moreover have "n < 2 ^ Suc k"
      using ih(3) by (simp add: k_def)
    ultimately show ?thesis using eq ih(1) by simp
  qed
qed

lemma powi_int_pos: "(0::int) \<le> e \<Longrightarrow> (2::rat) powi e = of_int (2 ^ nat e)"
  by (simp add: power_int_nonneg_exp)

lemma nbits_bounds_rat:
  assumes "0 < n"
  shows "(2::rat) powi (nbits n - 1) \<le> of_int n \<and> of_int n < (2::rat) powi nbits n"
proof -
  from nbits_bounds [OF assms] have b: "1 \<le> nbits n" "2 ^ nat (nbits n - 1) \<le> n" "n < 2 ^ nat (nbits n)"
    by auto
  have "(2::rat) powi (nbits n - 1) = of_int (2 ^ nat (nbits n - 1))" using b(1) by (simp add: powi_int_pos)
  moreover have "(2::rat) powi (nbits n) = of_int (2 ^ nat (nbits n))" using b(1) by (simp add: powi_int_pos)
  ultimately show ?thesis using b(2,3) by (simp only: of_int_le_iff of_int_less_iff)
qed

lemma powi_less_iff: "(2::rat) powi a < 2 powi b \<longleftrightarrow> a < b"
  by (metis linorder_not_less power_int_increasing power_int_strict_increasing one_le_numeral one_less_numeral_iff semiring_norm(76) order.strict_iff_not)

lemma powi_le_iff: "(2::rat) powi a \<le> 2 powi b \<longleftrightarrow> a \<le> b"
  by (meson linorder_not_less powi_less_iff)

lemma binade_bounds:
  assumes "0 < x"
  shows "2 powi binade x \<le> x \<and> x < 2 powi (binade x + 1)"
proof -
  obtain a b where q: "quotient_of x = (a, b)" by (cases "quotient_of x")
  have b0: "0 < b" using q by (rule quotient_of_denom_pos)
  have x: "x = of_int a / of_int b" using q by (rule quotient_of_div)
  have a0: "0 < a" using assms b0 by (simp add: x zero_less_divide_iff)
  define e where "e = nbits a - nbits b"
  have ba: "2 powi (nbits a - 1) \<le> (of_int a :: rat)" "(of_int a :: rat) < 2 powi nbits a"
    using nbits_bounds_rat [OF a0] by auto
  have bb: "2 powi (nbits b - 1) \<le> (of_int b :: rat)" "(of_int b :: rat) < 2 powi nbits b"
    using nbits_bounds_rat [OF b0] by auto
  have bpos: "(0::rat) < of_int b" using b0 by simp
  have lo: "(2::rat) powi (e - 1) < x"
  proof -
    have "(2::rat) powi (e - 1) * of_int b < 2 powi (e - 1) * 2 powi nbits b"
      using bb(2) by simp
    also have "\<dots> = (2::rat) powi (nbits a - 1)" by (simp add: e_def flip: power_int_add)
    also have "\<dots> \<le> of_int a" by (rule ba(1))
    finally show ?thesis using bpos by (simp add: x pos_less_divide_eq)
  qed
  have hi: "x < (2::rat) powi (e + 1)"
  proof -
    have "(of_int a :: rat) < 2 powi nbits a" by (rule ba(2))
    also have "\<dots> = (2::rat) powi (e + 1) * 2 powi (nbits b - 1)" by (simp add: e_def flip: power_int_add)
    also have "\<dots> \<le> 2 powi (e + 1) * of_int b" using bb(1) by simp
    finally show ?thesis using bpos by (simp add: x divide_less_eq)
  qed
  have bin: "binade x = (if 2 powi e \<le> x then e else e - 1)"
    by (simp add: binade_def q e_def)
  show ?thesis
  proof (cases "2 powi e \<le> x")
    case True
    then show ?thesis using hi bin by simp
  next
    case False
    then show ?thesis using lo bin by simp
  qed
qed

lemma binade_less: "0 < x \<Longrightarrow> x < 2 powi k \<Longrightarrow> binade x < k"
  using binade_bounds [of x] powi_less_iff [of "binade x" k] by linarith


lemma powi_split_nonneg: "(0::int) \<le> d \<Longrightarrow> (2::rat) powi (q + d) = of_int (2 ^ nat d) * 2 powi q"
  by (simp add: power_int_add powi_int_pos mult.commute)

lemma round_binary64_exact:
  assumes x: "x = of_int m * 2 powi q" and m: "\<bar>m\<bar> < 2 ^ 53" and q: "-1074 \<le> q"
  shows "round_binary64 x = x"
proof (cases "m = 0")
  case True
  then show ?thesis by (simp add: x round_binary64_def)
next
  case False
  have ax: "\<bar>x\<bar> = of_int \<bar>m\<bar> * 2 powi q" by (simp add: x abs_mult power_int_abs)
  have pos: "0 < \<bar>x\<bar>" using False by (simp add: ax)
  have "\<bar>x\<bar> < 2 ^ 53 * 2 powi q"
  proof -
    have "(of_int \<bar>m\<bar> :: rat) < 2 ^ 53" using m by (metis of_int_less_iff of_int_numeral of_int_power)
    then show ?thesis by (simp add: ax)
  qed
  also have "(2::rat) ^ 53 * 2 powi q = 2 powi (q + 53)" by (simp add: power_int_add)
  finally have "binade \<bar>x\<bar> < q + 53" using pos by (intro binade_less)
  define Q where "Q = max (binade \<bar>x\<bar> - 52) (-1074)"
  have Qq: "Q \<le> q" using q \<open>binade \<bar>x\<bar> < q + 53\<close> by (simp add: Q_def)
  have "\<bar>x\<bar> * 2 powi (- Q) = of_int (\<bar>m\<bar> * 2 ^ nat (q - Q))"
  proof -
    have "(2::rat) powi q = of_int (2 ^ nat (q - Q)) * 2 powi Q"
      using powi_split_nonneg [of "q - Q" Q] Qq by simp
    then show ?thesis by (simp add: ax power_int_minus mult.assoc)
  qed
  then have r: "round_half_even (\<bar>x\<bar> * 2 powi (- Q)) = \<bar>m\<bar> * 2 ^ nat (q - Q)"
    by (simp only: round_half_even_of_int)
  have "x \<noteq> 0" using pos by simp
  then have "round_binary64 x = sgn x * of_int (round_half_even (\<bar>x\<bar> * 2 powi (- Q))) * 2 powi Q"
    by (simp add: round_binary64_def Q_def Let_def)
  also have "\<dots> = sgn x * (of_int (\<bar>m\<bar> * 2 ^ nat (q - Q)) * 2 powi Q)"
    by (simp only: r mult.assoc)
  also have "of_int (\<bar>m\<bar> * 2 ^ nat (q - Q)) * 2 powi Q = \<bar>x\<bar>"
    using powi_split_nonneg [of "q - Q" Q] Qq by (simp add: ax mult.assoc)
  also have "sgn x * \<bar>x\<bar> = x" by (rule sgn_mult_abs)
  finally show ?thesis .
qed

lemma f32_fraction_bound: "0 \<le> f32_fraction w \<and> f32_fraction w < 2 ^ 23"
  using take_bit_int_less_exp [of 23 "uint w"]
  by (simp add: f32_fraction_def unsigned_take_bit_eq)

lemma f32_exponent_bound: "0 \<le> f32_exponent w \<and> f32_exponent w < 2 ^ 8"
  using take_bit_int_less_exp [of 8 "uint (drop_bit 23 w)"]
  by (simp add: f32_exponent_def unsigned_take_bit_eq)

lemma f32_significand_bound: "\<bar>f32_significand w\<bar> < 2 ^ 24"
  using f32_fraction_bound [of w] by (auto simp: f32_significand_def Let_def)

lemma f32_scale_bound: "-149 \<le> f32_scale w"
  using f32_exponent_bound [of w] by (auto simp: f32_scale_def)


lemma f32_value_times_100_exact: "round_binary64 (f32_value w * 100) = f32_value w * 100"
proof (rule round_binary64_exact)
  show "f32_value w * 100 = of_int (f32_significand w * 100) * 2 powi f32_scale w"
    by (simp add: f32_value_def)
  show "\<bar>f32_significand w * 100\<bar> < 2 ^ 53"
    using f32_significand_bound [of w] by (simp add: abs_mult)
  show "-1074 \<le> f32_scale w"
    using f32_scale_bound [of w] by simp
qed

lemma grid_above_half:
  assumes m: "\<bar>m\<bar> < 2 ^ 24" and ge: "1/2 \<le> (of_int m :: rat) * 2 powi q"
  shows "\<exists>k. (of_int m :: rat) * 2 powi q = of_int k / 2 ^ 24"
proof (cases "-24 \<le> q")
  case True
  have "(2::rat) powi q = of_int (2 ^ nat (q + 24)) / 2 ^ 24"
    using powi_split_nonneg [of "q + 24" "-24"] True by (simp add: power_int_minus_divide)
  then show ?thesis by (intro exI [of _ "m * 2 ^ nat (q + 24)"]) simp
next
  case False
  have "(of_int m :: rat) * 2 powi q \<le> of_int \<bar>m\<bar> * 2 powi q"
    by (intro mult_right_mono) simp_all
  also have "\<dots> < 2 ^ 24 * 2 powi q"
  proof -
    have "(of_int \<bar>m\<bar> :: rat) < 2 ^ 24" using m by (metis of_int_less_iff of_int_numeral of_int_power)
    then show ?thesis by simp
  qed
  also have "(2::rat) ^ 24 * 2 powi q = 2 powi (q + 24)" by (simp add: power_int_add)
  also have "\<dots> \<le> 2 powi (-1)" using False by (simp only: powi_le_iff)
  finally show ?thesis using ge by (simp add: power_int_minus)
qed

lemma f32_grid: "1/2 \<le> f32_value w \<Longrightarrow> \<exists>k. f32_value w = of_int k / 2 ^ 24"
  unfolding f32_value_def by (rule grid_above_half [OF f32_significand_bound])

lemma int_mult_threshold:
  fixes a c k x :: int
  assumes "0 < c" "(k - 1) * c < a" "a \<le> k * c"
  shows "a \<le> x * c \<longleftrightarrow> k \<le> x"
proof
  assume "a \<le> x * c"
  show "k \<le> x"
  proof (rule ccontr)
    assume "\<not> k \<le> x"
    then have "x * c \<le> (k - 1) * c" using assms(1) by (intro mult_right_mono) simp_all
    with assms(2) \<open>a \<le> x * c\<close> show False by linarith
  qed
next
  assume "k \<le> x"
  then have "k * c \<le> x * c" using assms(1) by (intro mult_right_mono) simp_all
  with assms(3) show "a \<le> x * c" by linarith
qed

lemma rat_frac_le_iff:
  fixes a c k d :: int
  assumes "0 < c" "0 < d"
  shows "(of_int a / of_int c \<le> (of_int k / of_int d :: rat)) \<longleftrightarrow> a * d \<le> k * c"
proof -
  have "(of_int a / of_int c \<le> (of_int k / of_int d :: rat)) \<longleftrightarrow>
        of_int a * of_int d \<le> (of_int k * of_int c :: rat)"
    using assms by (simp add: divide_le_eq le_divide_eq mult.commute mult.left_commute)
  also have "\<dots> \<longleftrightarrow> a * d \<le> k * c" by (simp flip: of_int_mult)
  finally show ?thesis .
qed

text \<open>The binary32 grid of \<open>[1/2, 1)\<close> has no point between the double \<open>0.85\<close>
  and the exact \<open>0.85\<close>, nor between the exact \<open>0.85\<close> and the \<open>float32\<close>
  nearest to it.\<close>
lemma grid_threshold:
  "((7656119366529843 / 2 ^ 53 :: rat) \<le> of_int k / 2 ^ 24 \<longleftrightarrow> 14260634 \<le> k) \<and>
   ((17 / 20 :: rat) \<le> of_int k / 2 ^ 24 \<longleftrightarrow> 14260634 \<le> k) \<and>
   ((14260634 / 2 ^ 24 :: rat) \<le> of_int k / 2 ^ 24 \<longleftrightarrow> 14260634 \<le> k)"
proof (intro conjI)
  have "(7656119366529843 / 2 ^ 53 :: rat) \<le> of_int k / 2 ^ 24 \<longleftrightarrow>
        7656119366529843 * 2 ^ 24 \<le> k * 2 ^ 53"
    using rat_frac_le_iff [of "2 ^ 53" "2 ^ 24" 7656119366529843 k] by simp
  also have "\<dots> \<longleftrightarrow> 14260634 \<le> k" by (rule int_mult_threshold) simp_all
  finally show "(7656119366529843 / 2 ^ 53 :: rat) \<le> of_int k / 2 ^ 24 \<longleftrightarrow> 14260634 \<le> k" .
  have "(17 / 20 :: rat) \<le> of_int k / 2 ^ 24 \<longleftrightarrow> 17 * 2 ^ 24 \<le> k * 20"
    using rat_frac_le_iff [of 20 "2 ^ 24" 17 k] by simp
  also have "\<dots> \<longleftrightarrow> 14260634 \<le> k" by (rule int_mult_threshold) simp_all
  finally show "(17 / 20 :: rat) \<le> of_int k / 2 ^ 24 \<longleftrightarrow> 14260634 \<le> k" .
  have "(14260634 / 2 ^ 24 :: rat) \<le> of_int k / 2 ^ 24 \<longleftrightarrow> 14260634 * 2 ^ 24 \<le> k * 2 ^ 24"
    using rat_frac_le_iff [of "2 ^ 24" "2 ^ 24" 14260634 k] by simp
  also have "\<dots> \<longleftrightarrow> 14260634 \<le> k" by (rule int_mult_threshold) simp_all
  finally show "(14260634 / 2 ^ 24 :: rat) \<le> of_int k / 2 ^ 24 \<longleftrightarrow> 14260634 \<le> k" .
qed

lemma digit_char_not_dot:
  assumes "i < 10"
  shows "digit_char i \<noteq> CHR ''.''"
proof
  assume "digit_char i = CHR ''.''"
  then have "of_char (digit_char i) = (of_char (CHR ''.'') :: nat)" by simp
  moreover have "of_char (digit_char i) = (48 + i :: nat)" using assms by (simp add: digit_char_def)
  ultimately show False by simp
qed

lemma show_nat_no_dot: "c \<in> set (show_nat n) \<Longrightarrow> c \<noteq> CHR ''.''"
  using show_nat_digits [of n] digit_char_not_dot by fastforce

lemma read_fixed2_fixed2:
  assumes "0 \<le> x"
  shows "read_fixed2 (fixed2 x) = nat (round_half_even (x * 100))"
proof -
  define n where "n = nat (round_half_even (\<bar>x\<bar> * 100))"
  have tw: "takeWhile (\<lambda>c. c \<noteq> CHR ''.'') (show_nat (n div 100) @ CHR ''.'' # r) = show_nat (n div 100)"
    and dw: "dropWhile (\<lambda>c. c \<noteq> CHR ''.'') (show_nat (n div 100) @ CHR ''.'' # r) = CHR ''.'' # r" for r
    by (simp_all add: takeWhile_append2 dropWhile_append2 show_nat_no_dot)
  have "n mod 10 = n mod 100 mod 10" by (simp add: mod_mod_cancel)
  then have two: "read_nat [digit_char (n mod 100 div 10), digit_char (n mod 10)] = n mod 100"
    by (simp add: read_nat_def)
  have "fixed2 x = show_nat (n div 100) @ CHR ''.'' # [digit_char (n mod 100 div 10), digit_char (n mod 10)]"
    using assms by (simp add: fixed2_def n_def Let_def)
  then have "read_fixed2 (fixed2 x) = 100 * (n div 100) + n mod 100"
    by (simp add: read_fixed2_def tw dw two read_show_nat)
  also have "\<dots> = n" by simp
  finally show ?thesis using assms by (simp add: n_def)
qed

lemma fixed2_error:
  assumes "0 \<le> x"
  shows "\<bar>of_nat (read_fixed2 (fixed2 x)) / 100 - x\<bar> \<le> 1 / 200"
proof -
  have nn: "0 \<le> round_half_even (x * 100)" using assms by (simp add: round_half_even_nonneg)
  have "\<bar>x * 100 - of_int (round_half_even (x * 100))\<bar> \<le> 1 / 2" by (rule round_half_even_error)
  moreover have "(of_nat (read_fixed2 (fixed2 x)) :: rat) = of_int (round_half_even (x * 100))"
    using nn by (simp add: read_fixed2_fixed2 [OF assms])
  ultimately show ?thesis by (simp add: field_simps abs_minus_commute)
qed

lemma fixed2_digits:
  assumes "0 \<le> x" and "round_half_even (x * 100) = int n"
  shows "fixed2 x = show_nat (n div 100) @ ''.'' @ [digit_char (n mod 100 div 10), digit_char (n mod 10)]"
  using assms by (simp add: fixed2_def Let_def)

subsection \<open>Properties of the percentage display\<close>

text \<open>C12: for a \<open>float32\<close> probability the multiplication by 100 that CPython performs in
  double arithmetic before printing never rounds: the printed figure is the exact
  \<open>100 * p\<close> rounded once, to two decimals.\<close>
theorem percent_product_exact: "format_percent (f32_value w) = fixed2 (f32_value w * 100) @ ''%''"
  by (simp add: format_percent_def f32_value_times_100_exact)

text \<open>C11: the percentage shown for a nonnegative \<open>float32\<close> probability, read back as
  a decimal, is within \<open>0.005\<close> percentage points of \<open>100 * p\<close>.\<close>
theorem confidence_shown_error:
  assumes "0 \<le> f32_value w"
  shows "\<bar>of_nat (read_fixed2 (butlast (format_percent (f32_value w)))) / 100 - 100 * f32_value w\<bar> \<le> 1 / 200"
proof -
  have "butlast (format_percent (f32_value w)) = fixed2 (f32_value w * 100)"
    by (simp add: format_percent_def f32_value_times_100_exact)
  moreover have "0 \<le> f32_value w * 100" using assms by simp
  ultimately show ?thesis using fixed2_error [of "f32_value w * 100"] by (simp add: mult.commute)
qed

theorem confidence_shown_error_witness:
  "0 \<le> f32_value 0x3F6B851F \<and>
   \<bar>of_nat (read_fixed2 (butlast (format_percent (f32_value 0x3F6B851F)))) / 100 - 100 * f32_value 0x3F6B851F\<bar> \<le> 1 / 200"
proof -
  have v: "0 \<le> f32_value 0x3F6B851F" by (simp add: model_defs)
  show ?thesis using v confidence_shown_error [OF v] by blast
qed

text \<open>C26: the confidence text of a probability in \<open>[0, 1]\<close> is a decimal numeral of
  one to three digits, a point, exactly two digits and a percent sign, and reads at most
  \<open>100.00\<close>: \<open>'.2%'\<close> never prints an exponent or a third decimal.\<close>
theorem percent_text_shape:
  assumes "0 \<le> f32_value w" and "f32_value w \<le> 1"
  shows "\<exists>i d1 d2. format_percent (f32_value w) = show_nat i @ ''.'' @ [digit_char d1, digit_char d2, CHR ''%''] \<and>
           100 * i + 10 * d1 + d2 \<le> 10000 \<and> d1 < 10 \<and> d2 < 10 \<and>
           1 \<le> length (show_nat i) \<and> length (show_nat i) \<le> 3"
proof -
  define x where "x = f32_value w * 100"
  define n where "n = nat (round_half_even (x * 100))"
  have x0: "0 \<le> x" using assms(1) by (simp add: x_def)
  have rn: "round_half_even (x * 100) = int n"
    using round_half_even_nonneg [of "x * 100"] x0 by (simp add: n_def)
  have "round_half_even (x * 100) \<le> round_half_even (of_int 10000)"
    using assms(2) by (intro round_half_even_mono) (simp add: x_def)
  moreover have "round_half_even (of_int 10000) = 10000" by (rule round_half_even_of_int)
  ultimately have n: "n \<le> 10000" using rn by simp
  have fp: "format_percent (f32_value w) =
      show_nat (n div 100) @ ''.'' @ [digit_char (n mod 100 div 10), digit_char (n mod 10), CHR ''%'']"
    using fixed2_digits [OF x0 rn] by (simp add: format_percent_def f32_value_times_100_exact x_def)
  have "n div 100 < 10 ^ Suc 2" using n by simp
  then have "length (show_nat (n div 100)) \<le> 3" using show_nat_length [of "n div 100" 2] by simp
  moreover have "1 \<le> length (show_nat (n div 100))"
    using show_nat_not_Nil [of "n div 100"] by (simp add: Suc_le_eq)
  moreover have "100 * (n div 100) + 10 * (n mod 100 div 10) + n mod 10 = n"
  proof -
    have "n mod 10 = n mod 100 mod 10" by (simp add: mod_mod_cancel)
    moreover have "10 * (n mod 100 div 10) + n mod 100 mod 10 = n mod 100" by (rule mult_div_mod_eq)
    moreover have "100 * (n div 100) + n mod 100 = n" by (rule mult_div_mod_eq)
    ultimately show ?thesis by linarith
  qed
  moreover have "n mod 100 div 10 < 10" "n mod 10 < 10" by simp_all
  ultimately show ?thesis using fp n by (metis (no_types, lifting) append.assoc)
qed

theorem percent_text_shape_witness:
  "0 \<le> f32_value 0x3F6B851F \<and> f32_value 0x3F6B851F \<le> 1 \<and>
   (\<exists>i d1 d2. format_percent (f32_value 0x3F6B851F) = show_nat i @ ''.'' @ [digit_char d1, digit_char d2, CHR ''%''] \<and>
      100 * i + 10 * d1 + d2 \<le> 10000 \<and> d1 < 10 \<and> d2 < 10 \<and>
      1 \<le> length (show_nat i) \<and> length (show_nat i) \<le> 3)"
proof -
  have v: "0 \<le> f32_value 0x3F6B851F" "f32_value 0x3F6B851F \<le> 1" by (simp_all add: model_defs)
  show ?thesis using v percent_text_shape [OF v] by blast
qed
end
