(* ===== verification/Predictor.thy ===== *)
theory Predictor
  imports Vectorizer Floats
begin

text \<open>
  The predictor, \<open>src/app.py\<close> lines 58 and 69--70: the loaded XGBoost classifier,
  used as an opaque object through the three members the script touches
  (\<open>feature_names_in_\<close>, \<open>predict\<close>, \<open>predict_proba\<close>). The classifier is a parameter
  of every theorem. \<open>feature_names_in_\<close> is a property of XGBoost's scikit-learn
  wrapper that raises \<open>AttributeError\<close> when the booster recorded no feature names
  (a model fitted on an array rather than a data frame): \<open>has_feature_names\<close> says
  whether it did, \<open>feature_names_attr\<close> is the read of line 58. \<open>predict\<close> on the one-row frame returns one label (the \<open>[0]\<close> of
  line 69 reads it); \<open>predict_proba\<close> returns that row's class probabilities as
  \<open>float32\<close> bit patterns, and line 70 reads index \<open>1\<close>, which raises \<open>IndexError\<close>
  when the model has fewer than two classes. Before predicting, XGBoost's
  \<open>_validate_features\<close> compares the frame's column names with the booster's and
  raises \<open>ValueError\<close> when they differ (\<open>validate_features\<close>); a booster without
  names takes the frame's.
  \<open>xgb_label_rule\<close> is how \<open>XGBClassifier.predict\<close> derives the label of a binary
  model from the same probabilities: class \<open>1\<close> exactly when its probability
  exceeds \<open>0.5\<close>.
\<close>

subsection \<open>Definitions\<close>

record 'v classifier =
  feature_names_in :: "feature list"
  has_feature_names :: bool
  predict :: "'v row \<Rightarrow> int"
  predict_proba :: "'v row \<Rightarrow> 32 word list"

text \<open>Line 58: reading the property \<open>feature_names_in_\<close>.\<close>
definition feature_names_attr :: "'v classifier \<Rightarrow> py_error + feature list" where
  "feature_names_attr clf =
     (if has_feature_names clf then Inr (feature_names_in clf) else Inl (AttributeError ''feature_names_in_''))"

definition validate_features :: "'v classifier \<Rightarrow> 'v row \<Rightarrow> py_error + unit" where
  "validate_features clf row =
     (if has_feature_names clf \<and> map fst row \<noteq> feature_names_in clf
      then Inl (ValueError ''feature_names mismatch'') else Inr ())"

text \<open>Lines 69--70: \<open>(prediction, prediction_proba)\<close>.\<close>
definition predict_one :: "'v classifier \<Rightarrow> 'v row \<Rightarrow> py_error + int \<times> 32 word" where
  "predict_one clf row =
     (case validate_features clf row of
        Inl e \<Rightarrow> Inl e
      | Inr _ \<Rightarrow>
          (let prediction = predict clf row; probs = predict_proba clf row
           in if length probs < 2 then Inl IndexError else Inr (prediction, probs ! 1)))"

definition xgb_label_rule :: "'v classifier \<Rightarrow> 'v row \<Rightarrow> bool" where
  "xgb_label_rule clf row \<longleftrightarrow>
     length (predict_proba clf row) = 2 \<and>
     predict clf row = (if 1 / 2 < f32_value (predict_proba clf row ! 1) then 1 else 0)"

declare feature_names_attr_def [model_defs] validate_features_def [model_defs] predict_one_def [model_defs] xgb_label_rule_def [model_defs]

subsection \<open>Lemmas\<close>

lemma predict_one_Inr:
  "map fst row = feature_names_in clf \<Longrightarrow> 2 \<le> length (predict_proba clf row) \<Longrightarrow>
   predict_one clf row = Inr (predict clf row, predict_proba clf row ! 1)"
  by (simp add: predict_one_def validate_features_def)

lemma predict_one_Inr_iff:
  "predict_one clf row = Inr r \<longleftrightarrow>
   (has_feature_names clf \<longrightarrow> map fst row = feature_names_in clf) \<and> 2 \<le> length (predict_proba clf row) \<and>
   r = (predict clf row, predict_proba clf row ! 1)"
  by (auto simp: predict_one_def validate_features_def Let_def)

end
