(* ===== verification/Risk.thy ===== *)
theory Risk
  imports Floats
begin

text \<open>
  The risk classifier and its display, \<open>src/app.py\<close> lines 72--79:
  \<^verbatim>\<open>if prediction == 1:
    if prediction_proba >= 0.85:  st.error(...High Risk...)
    else:                         st.warning(...Possible CKD...)
else:                             st.success(...No CKD Detected...)\<close>
  \<open>show_result\<close> returns the Streamlit element kind and its markdown text; the emoji
  that open each message are not ASCII and are left out of the model's strings.
  The comparison is made against the double \<open>0.85\<close>
  (\<open>high_risk_threshold\<close>, its exact value); under NumPy 2 the literal is first
  converted to \<open>float32\<close>, and \<open>f32_threshold\<close> shows both readings, and the
  spec's exact \<open>0.85\<close>, agree on every \<open>float32\<close> probability.
  \<open>risk_tier_spec\<close> is spec section 4.3's three-way split, exact \<open>0.85\<close>, labels
  \<open>{0, 1}\<close> only.
\<close>

subsection \<open>Definitions\<close>

datatype alert = St_error | St_warning | St_success

datatype tier = No_risk | Possible_risk | High_risk

text \<open>The double nearest to \<open>0.85\<close>: \<open>0.84999999999999997779...\<close>.\<close>
definition high_risk_threshold :: rat where
  "high_risk_threshold = 7656119366529843 / 2 ^ 53"

definition confidence_text :: "rat \<Rightarrow> string" where
  "confidence_text p = '' (Confidence: '' @ format_percent p @ '')''"

definition show_result :: "int \<Rightarrow> rat \<Rightarrow> alert \<times> string" where
  "show_result prediction prediction_proba =
     (if prediction = 1 then
        (if high_risk_threshold \<le> prediction_proba
         then (St_error, ''**High Risk of CKD!**'' @ confidence_text prediction_proba)
         else (St_warning, ''**Possible CKD.**'' @ confidence_text prediction_proba))
      else (St_success, ''**No CKD Detected.**'' @ confidence_text prediction_proba))"

definition tier_of_alert :: "alert \<Rightarrow> tier" where
  "tier_of_alert a = (case a of St_error \<Rightarrow> High_risk | St_warning \<Rightarrow> Possible_risk | St_success \<Rightarrow> No_risk)"

definition risk_tier_spec :: "int \<Rightarrow> rat \<Rightarrow> tier option" where
  "risk_tier_spec label p =
     (if label = 0 then Some No_risk
      else if label = 1 then Some (if p < 17 / 20 then Possible_risk else High_risk)
      else None)"

declare high_risk_threshold_def [model_defs] confidence_text_def [model_defs]
  show_result_def [model_defs] tier_of_alert_def [model_defs] risk_tier_spec_def [model_defs]

subsection \<open>Lemmas\<close>

lemma f32_threshold:
  "(high_risk_threshold \<le> f32_value w \<longleftrightarrow> 17 / 20 \<le> f32_value w) \<and>
   (14260634 / 2 ^ 24 \<le> f32_value w \<longleftrightarrow> 17 / 20 \<le> f32_value w)"
proof (cases "1 / 2 \<le> f32_value w")
  case True
  then obtain k where k: "f32_value w = of_int k / 2 ^ 24" using f32_grid by blast
  show ?thesis unfolding k high_risk_threshold_def using grid_threshold [of k] by blast
next
  case False
  then show ?thesis by (simp add: high_risk_threshold_def)
qed

lemma tier_of_show_result:
  "tier_of_alert (fst (show_result label p)) =
   (if label = 1 then (if high_risk_threshold \<le> p then High_risk else Possible_risk) else No_risk)"
  by (simp add: show_result_def tier_of_alert_def)

text \<open>On a binary label and a \<open>float32\<close> probability, the alert's tier is the spec's.\<close>
lemma tier_spec_show_result:
  "label \<in> {0, 1} \<Longrightarrow>
   risk_tier_spec label (f32_value w) = Some (tier_of_alert (fst (show_result label (f32_value w))))"
  using f32_threshold [of w] by (auto simp: risk_tier_spec_def tier_of_show_result)

lemma show_result_text:
  "\<exists>headline. snd (show_result label p) = headline @ confidence_text p"
  by (simp add: show_result_def)

lemma f32_scenario_values:
  "f32_value 0x3F6B851F = 15435039 / 2 ^ 24"
  "f32_value 0x3ECCCCCD = 13421773 / 2 ^ 25"
  "f32_value 0x3DCCCCCD = 13421773 / 2 ^ 27"
  "f32_value 0x3F59999A = 14260634 / 2 ^ 24"
  "f32_value 0x3F599999 = 14260633 / 2 ^ 24"
  by (simp_all add: model_defs)

lemma confidence_text_f32:
  "confidence_text (f32_value w) = '' (Confidence: '' @ fixed2 (f32_value w * 100) @ ''%)''"
  by (simp add: confidence_text_def format_percent_def f32_value_times_100_exact)

subsection \<open>Properties of the risk classifier\<close>

text \<open>C1: on every \<open>float32\<close> probability and every binary label, the alert the code
  shows is the spec's tier with the exact threshold \<open>0.85\<close>, inclusive on the
  high-risk side: comparing against the double literal loses nothing.\<close>
theorem show_result_refines_tier_spec:
  assumes "label \<in> {0, 1}"
  shows "risk_tier_spec label (f32_value w) = Some (tier_of_alert (fst (show_result label (f32_value w))))"
  using assms by (rule tier_spec_show_result)

text \<open>C13: the spec's display scenarios, on the \<open>float32\<close> values XGBoost returns for
  0.92, 0.40 and 0.10.\<close>
theorem show_result_scenarios:
  "show_result 1 (f32_value 0x3F6B851F) = (St_error, ''**High Risk of CKD!** (Confidence: 92.00%)'') \<and>
   show_result 1 (f32_value 0x3ECCCCCD) = (St_warning, ''**Possible CKD.** (Confidence: 40.00%)'') \<and>
   show_result 0 (f32_value 0x3DCCCCCD) = (St_success, ''**No CKD Detected.** (Confidence: 10.00%)'')"
proof -
  have r1: "round_half_even (15435039 / 2 ^ 24 * 100 * 100) = int 9200" by code_simp
  have r2: "round_half_even (13421773 / 2 ^ 25 * 100 * 100) = int 4000" by code_simp
  have r3: "round_half_even (13421773 / 2 ^ 27 * 100 * 100) = int 1000" by code_simp
  have d1: "fixed2 (f32_value 0x3F6B851F * 100) = ''92.00''"
    unfolding f32_scenario_values
    by (subst fixed2_digits [OF _ r1]) (simp_all add: show_nat.simps digit_char_def char_of_eq_iff)
  have d2: "fixed2 (f32_value 0x3ECCCCCD * 100) = ''40.00''"
    unfolding f32_scenario_values
    by (subst fixed2_digits [OF _ r2]) (simp_all add: show_nat.simps digit_char_def char_of_eq_iff)
  have d3: "fixed2 (f32_value 0x3DCCCCCD * 100) = ''10.00''"
    unfolding f32_scenario_values
    by (subst fixed2_digits [OF _ r3]) (simp_all add: show_nat.simps digit_char_def char_of_eq_iff)
  have t1: "high_risk_threshold \<le> f32_value 0x3F6B851F"
    and t2: "\<not> high_risk_threshold \<le> f32_value 0x3ECCCCCD"
    by (simp_all add: f32_scenario_values high_risk_threshold_def)
  show ?thesis
    by (simp add: show_result_def confidence_text_f32 d1 d2 d3 t1 t2)
qed

text \<open>C21: \<open>prediction_proba >= 0.85\<close> decides the same under NumPy 1, which compares
  the \<open>float32\<close> with the double \<open>0.85\<close>, and under NumPy 2, which first converts the
  literal to \<open>float32\<close> (bit pattern \<open>0x3F59999A\<close>), on every \<open>float32\<close> probability.\<close>
theorem numpy_comparison_agrees:
  "(high_risk_threshold \<le> f32_value w) = (f32_value 0x3F59999A \<le> f32_value w)"
  using f32_threshold [of w] by (simp add: f32_scenario_values)

theorem show_result_refines_tier_spec_witness:
  "(1::int) \<in> {0, 1} \<and>
   risk_tier_spec 1 (f32_value 0x3F6B851F) = Some (tier_of_alert (fst (show_result 1 (f32_value 0x3F6B851F))))"
  using show_result_refines_tier_spec [of 1 "0x3F6B851F"] by simp

end
