(* ===== verification/Catalog.thy ===== *)
theory Catalog
  imports Prelude
begin

text \<open>
  The feature catalog, \<open>src/app.py\<close> lines 13--38 and 51: the ten features the form
  asks for (\<open>selected_features\<close>), the dict literal of readable labels and tooltips
  (\<open>feature_descriptions\<close>, built as Python builds a dict display) and the lookup
  \<open>feature_descriptions.get(feature, (feature, ""))\<close> (\<open>describe\<close>).
\<close>

subsection \<open>Definitions\<close>

definition selected_features :: "feature list" where
  "selected_features = [''hemo'', ''dm'', ''sg'', ''sc'', ''htn'', ''al'', ''rc'', ''bgr'', ''sod'', ''age'']"

definition feature_descriptions :: "(feature, string \<times> string) pydict" where
  "feature_descriptions = dict_of_list
    [(''age'', (''Age'', ''Age of the patient (in years)'')),
     (''su'', (''Sugar'', ''Urine sugar content'')),
     (''rbc'', (''Red Blood Cells'', ''Red blood cell count'')),
     (''pc'', (''Pus Cells'', ''Presence of pus cells'')),
     (''al'', (''Albumin'', ''Albumin level in urine'')),
     (''pcc'', (''Pus Cell Clumps'', ''Clumped pus cells presence'')),
     (''bgr'', (''Blood Glucose Random'', ''Random blood glucose level'')),
     (''bu'', (''Blood Urea'', ''Amount of urea in blood'')),
     (''sc'', (''Serum Creatinine'', ''Kidney filtration indicator'')),
     (''sod'', (''Sodium'', ''Sodium level in blood'')),
     (''pot'', (''Potassium'', ''Potassium level in blood'')),
     (''hemo'', (''Hemoglobin'', ''Hemoglobin concentration'')),
     (''wc'', (''White Blood Cell Count'', ''WBC count per mm3'')),
     (''rc'', (''Red Blood Cell Count'', ''RBC count per mm3'')),
     (''htn'', (''Hypertension'', ''High blood pressure history (1/0)'')),
     (''dm'', (''Diabetes Mellitus'', ''Diabetes history (1/0)'')),
     (''cad'', (''Coronary Artery Disease'', ''CAD history (1/0)'')),
     (''appet'', (''Appetite'', ''Normal or poor (1/0)'')),
     (''pe'', (''Pedal Edema'', ''Swelling in legs (1/0)'')),
     (''ane'', (''Anemia'', ''Anemic condition (1/0)''))]"

text \<open>\<open>feature_descriptions.get(feature, (feature, ""))\<close>\<close>
definition describe :: "feature \<Rightarrow> string \<times> string" where
  "describe f = (case dict_get feature_descriptions f of Some d \<Rightarrow> d | None \<Rightarrow> (f, ''''))"

declare selected_features_def [model_defs] describe_def [model_defs]

subsection \<open>Lemmas\<close>

text \<open>The dict display has no repeated key, so it is the list of its entries.\<close>
lemma feature_descriptions_entries:
  "feature_descriptions =
    [(''age'', (''Age'', ''Age of the patient (in years)'')),
     (''su'', (''Sugar'', ''Urine sugar content'')),
     (''rbc'', (''Red Blood Cells'', ''Red blood cell count'')),
     (''pc'', (''Pus Cells'', ''Presence of pus cells'')),
     (''al'', (''Albumin'', ''Albumin level in urine'')),
     (''pcc'', (''Pus Cell Clumps'', ''Clumped pus cells presence'')),
     (''bgr'', (''Blood Glucose Random'', ''Random blood glucose level'')),
     (''bu'', (''Blood Urea'', ''Amount of urea in blood'')),
     (''sc'', (''Serum Creatinine'', ''Kidney filtration indicator'')),
     (''sod'', (''Sodium'', ''Sodium level in blood'')),
     (''pot'', (''Potassium'', ''Potassium level in blood'')),
     (''hemo'', (''Hemoglobin'', ''Hemoglobin concentration'')),
     (''wc'', (''White Blood Cell Count'', ''WBC count per mm3'')),
     (''rc'', (''Red Blood Cell Count'', ''RBC count per mm3'')),
     (''htn'', (''Hypertension'', ''High blood pressure history (1/0)'')),
     (''dm'', (''Diabetes Mellitus'', ''Diabetes history (1/0)'')),
     (''cad'', (''Coronary Artery Disease'', ''CAD history (1/0)'')),
     (''appet'', (''Appetite'', ''Normal or poor (1/0)'')),
     (''pe'', (''Pedal Edema'', ''Swelling in legs (1/0)'')),
     (''ane'', (''Anemia'', ''Anemic condition (1/0)''))]"
  unfolding feature_descriptions_def by (rule dict_of_list_distinct) simp

text \<open>Of the ten features the form asks for, exactly one, \<open>sg\<close> (specific gravity),
  has no catalog entry: its field is labelled with the raw identifier \<open>sg\<close> and has an
  empty tooltip.\<close>
lemma selected_features_fallback:
  "filter (\<lambda>f. dict_get feature_descriptions f = None) selected_features = [''sg''] \<and>
   describe ''sg'' = (''sg'', '''')"
  by (simp add: selected_features_def describe_def feature_descriptions_entries)

end
