(* ===== verification/Inputs.thy ===== *)
theory Inputs
  imports Catalog
begin

text \<open>
  The input collector, \<open>src/app.py\<close> lines 44--53:
  \<^verbatim>\<open>cols = st.columns(4)
input_data = {}
for i, feature in enumerate(selected_features):
    col = cols[i % 4]
    label, tooltip = feature_descriptions.get(feature, (feature, ""))
    val = col.number_input(f"{label}", help=tooltip, step=0.1, format="%.2f")
    input_data[feature] = val\<close>
  A run of the script sees the form as Streamlit keeps it between runs: \<open>form\<close>
  gives the value the user left in the widget with a given label and tooltip, or
  \<open>None\<close> when the field was never touched, in which case \<open>number_input\<close> returns its
  default \<open>0.0\<close> (no \<open>value\<close> and no \<open>min_value\<close> are passed). Streamlit derives a
  widget's identity from its label and parameters; two \<open>number_input\<close>s with the same
  identity in one run raise \<open>DuplicateWidgetID\<close>, modelled by the list of identities
  already used. \<open>cols[i % 4]\<close> indexes a list of four columns.
\<close>

subsection \<open>Definitions\<close>

record widget =
  w_column :: nat
  w_label :: string
  w_help :: string

type_synonym form = "string \<times> string \<Rightarrow> rat option"

definition num_columns :: nat where
  "num_columns = 4"

text \<open>\<open>col.number_input(label, help=tooltip, ...)\<close> in a run that already placed the
  widgets \<open>used\<close>: the widget and its value, or \<open>DuplicateWidgetID\<close>.\<close>
definition number_input :: "form \<Rightarrow> (string \<times> string) list \<Rightarrow> nat \<Rightarrow> string \<Rightarrow> string \<Rightarrow>
    py_error + widget \<times> rat" where
  "number_input form used col label tooltip =
     (if (label, tooltip) \<in> set used then Inl (DuplicateWidgetID label)
      else Inr (\<lparr>w_column = col, w_label = label, w_help = tooltip\<rparr>,
                case form (label, tooltip) of Some v \<Rightarrow> v | None \<Rightarrow> 0))"

text \<open>The loop from index \<open>i\<close>, with the widgets placed so far (newest first) and
  \<open>input_data\<close>.\<close>
fun input_loop :: "form \<Rightarrow> nat \<Rightarrow> feature list \<Rightarrow> widget list \<Rightarrow> (feature, rat) pydict \<Rightarrow>
    py_error + widget list \<times> (feature, rat) pydict" where
  "input_loop form i [] ws d = Inr (rev ws, d)"
| "input_loop form i (f # fs) ws d =
     (let (label, tooltip) = describe f
      in case number_input form (map (\<lambda>w. (w_label w, w_help w)) ws) (i mod num_columns) label tooltip of
           Inl e \<Rightarrow> Inl e
         | Inr (w, val) \<Rightarrow> input_loop form (Suc i) fs (w # ws) (dict_set d f val))"

definition collect_inputs :: "form \<Rightarrow> py_error + widget list \<times> (feature, rat) pydict" where
  "collect_inputs form = input_loop form 0 selected_features [] []"

text \<open>The value a field holds: what the user left in it, else \<open>0.0\<close>.\<close>
definition field_value :: "form \<Rightarrow> feature \<Rightarrow> rat" where
  "field_value form f = (case form (describe f) of Some v \<Rightarrow> v | None \<Rightarrow> 0)"

text \<open>The widget the loop places for feature \<open>f\<close> at position \<open>j\<close>.\<close>
definition widget_for :: "nat \<times> feature \<Rightarrow> widget" where
  "widget_for jf = (case jf of (j, f) \<Rightarrow>
     \<lparr>w_column = j mod num_columns, w_label = fst (describe f), w_help = snd (describe f)\<rparr>)"

declare widget_for_def [model_defs]
declare num_columns_def [model_defs] number_input_def [model_defs] collect_inputs_def [model_defs]
  field_value_def [model_defs]

subsection \<open>Lemmas\<close>

lemma widget_id: "(w_label (widget_for (j, f)), w_help (widget_for (j, f))) = describe f"
  by (simp add: widget_for_def)

text \<open>When no two features share a widget identity, and none is already placed, the loop
  places one widget per feature, in order, and stores each field's value.\<close>
lemma input_loop_Inr:
  assumes "distinct (map describe fs)"
    and "set (map describe fs) \<inter> set (map (\<lambda>w. (w_label w, w_help w)) ws) = {}"
  shows "input_loop form i fs ws d =
           Inr (rev ws @ map widget_for (enumerate i fs),
                foldl (\<lambda>d f. dict_set d f (field_value form f)) d fs)"
  using assms
proof (induction fs arbitrary: i ws d)
  case Nil
  then show ?case by simp
next
  case (Cons f fs)
  obtain l t where lt: "describe f = (l, t)" by fastforce
  have w: "widget_for (i, f) = \<lparr>w_column = i mod num_columns, w_label = l, w_help = t\<rparr>"
    by (simp add: widget_for_def lt)
  have fresh: "(l, t) \<notin> set (map (\<lambda>w. (w_label w, w_help w)) ws)"
    using Cons.prems(2) lt by auto
  have step: "number_input form (map (\<lambda>w. (w_label w, w_help w)) ws) (i mod num_columns) l t =
      Inr (widget_for (i, f), field_value form f)"
    using fresh by (simp add: number_input_def w field_value_def lt)
  have "distinct (map describe fs)" using Cons.prems(1) by simp
  moreover have "set (map describe fs) \<inter> set (map (\<lambda>w. (w_label w, w_help w)) (widget_for (i, f) # ws)) = {}"
    using Cons.prems lt by (auto simp: w)
  ultimately have "input_loop form (Suc i) fs (widget_for (i, f) # ws) (dict_set d f (field_value form f)) =
      Inr (rev (widget_for (i, f) # ws) @ map widget_for (enumerate (Suc i) fs),
           foldl (\<lambda>d f. dict_set d f (field_value form f)) (dict_set d f (field_value form f)) fs)"
    by (rule Cons.IH)
  then show ?case by (simp add: lt step)
qed

lemma selected_features_distinct_ids: "distinct (map describe selected_features)"
  by (simp add: selected_features_def describe_def feature_descriptions_entries)

lemma collect_inputs_eq:
  "collect_inputs form =
     Inr (map widget_for (enumerate 0 selected_features),
          map (\<lambda>f. (f, field_value form f)) selected_features)"
proof -
  have "distinct (map fst (map (\<lambda>f. (f, field_value form f)) selected_features))"
    by (simp add: selected_features_def)
  then have "foldl (\<lambda>d f. dict_set d f (field_value form f)) [] selected_features =
             map (\<lambda>f. (f, field_value form f)) selected_features"
    using foldl_dict_set_distinct [of "[]" "map (\<lambda>f. (f, field_value form f)) selected_features"]
    by (simp add: foldl_map)
  then show ?thesis
    using input_loop_Inr [OF selected_features_distinct_ids, of "[]" form 0 "[]"]
    by (simp add: collect_inputs_def)
qed

lemma widget_ids_enumerate:
  "map (\<lambda>w. (w_label w, w_help w)) (map widget_for (enumerate i fs)) = map describe fs"
  by (induction fs arbitrary: i) (simp_all add: widget_for_def)

subsection \<open>Properties of the input collector\<close>

text \<open>C15: the input loop never raises (no two fields share a widget identity), and
  \<open>input_data\<close> holds the ten selected features in the list's order, each with the
  value left in its field, \<open>0.0\<close> for a field never touched.\<close>
theorem collect_inputs_values:
  "\<exists>ws. collect_inputs form = Inr (ws, map (\<lambda>f. (f, field_value form f)) selected_features)"
  by (simp add: collect_inputs_eq)

text \<open>C16: the fields go round the four columns (\<open>cols[i % 4]\<close> never leaves the list:
  columns 0 to 3 get 3, 3, 2 and 2 fields) and carry pairwise distinct identities.\<close>
theorem widget_columns:
  assumes "collect_inputs form = Inr (ws, input_data)"
  shows "map w_column ws = [0, 1, 2, 3, 0, 1, 2, 3, 0, 1] \<and> (\<forall>w\<in>set ws. w_column w < num_columns) \<and>
         distinct (map (\<lambda>w. (w_label w, w_help w)) ws)"
proof -
  from assms have ws: "ws = map widget_for (enumerate 0 selected_features)"
    by (simp add: collect_inputs_eq)
  have c: "map w_column ws = [0, 1, 2, 3, 0, 1, 2, 3, 0, 1]"
    by (simp add: ws selected_features_def widget_for_def num_columns_def)
  have "distinct (map (\<lambda>w. (w_label w, w_help w)) ws)"
    using selected_features_distinct_ids by (simp only: ws widget_ids_enumerate)
  moreover have "\<forall>w\<in>set ws. w_column w < num_columns"
  proof
    fix w assume "w \<in> set ws"
    then have "w_column w \<in> set (map w_column ws)" by simp
    then show "w_column w < num_columns" by (auto simp: c num_columns_def)
  qed
  ultimately show ?thesis using c by blast
qed

text \<open>C28: the input loop raises Streamlit's \<open>DuplicateWidgetID\<close> exactly when a
  feature's label and tooltip repeat those of a widget already placed, and the error
  names the label of the first such feature; before it, every identity is fresh.\<close>
theorem input_loop_duplicate:
  "input_loop form i fs ws d = Inl e \<longleftrightarrow>
   (\<exists>pre f post. fs = pre @ f # post \<and>
      distinct (map describe pre) \<and>
      set (map describe pre) \<inter> set (map (\<lambda>w. (w_label w, w_help w)) ws) = {} \<and>
      describe f \<in> set (map describe pre) \<union> set (map (\<lambda>w. (w_label w, w_help w)) ws) \<and>
      e = DuplicateWidgetID (fst (describe f)))"
proof (induction fs arbitrary: i ws d)
  case Nil
  then show ?case by simp
next
  case (Cons g gs)
  obtain l t where lt: "describe g = (l, t)" by fastforce
  let ?U = "map (\<lambda>w. (w_label w, w_help w)) ws"
  show ?case
  proof (cases "(l, t) \<in> set ?U")
    case True
    then have run: "input_loop form i (g # gs) ws d = Inl (DuplicateWidgetID l)"
      by (simp add: number_input_def lt)
    show ?thesis
    proof
      assume "input_loop form i (g # gs) ws d = Inl e"
      with run True lt show "\<exists>pre f post. g # gs = pre @ f # post \<and> distinct (map describe pre) \<and>
          set (map describe pre) \<inter> set ?U = {} \<and> describe f \<in> set (map describe pre) \<union> set ?U \<and>
          e = DuplicateWidgetID (fst (describe f))"
        by (intro exI [of _ "[]"] exI [of _ g] exI [of _ gs]) auto
    next
      assume "\<exists>pre f post. g # gs = pre @ f # post \<and> distinct (map describe pre) \<and>
          set (map describe pre) \<inter> set ?U = {} \<and> describe f \<in> set (map describe pre) \<union> set ?U \<and>
          e = DuplicateWidgetID (fst (describe f))"
      with True lt have "e = DuplicateWidgetID l"
        by (auto simp: Cons_eq_append_conv)
      with run show "input_loop form i (g # gs) ws d = Inl e" by simp
    qed
  next
    case False
    define w where "w = \<lparr>w_column = i mod num_columns, w_label = l, w_help = t\<rparr>"
    have run: "input_loop form i (g # gs) ws d =
        input_loop form (Suc i) gs (w # ws) (dict_set d g (case form (l, t) of Some v \<Rightarrow> v | None \<Rightarrow> 0))"
      using False by (simp add: number_input_def lt w_def)
    have ids: "map (\<lambda>w. (w_label w, w_help w)) (w # ws) = (l, t) # ?U" by (simp add: w_def)
    have "describe g \<notin> set ?U" using False lt by simp
    from first_dup_Cons [where h = describe, OF this, of gs "\<lambda>f. e = DuplicateWidgetID (fst (describe f))"]
    show ?thesis unfolding run Cons.IH ids lt by simp
  qed
qed
theorem widget_columns_witness:
  "collect_inputs (\<lambda>_. None) = Inr (map widget_for (enumerate 0 selected_features),
                                    map (\<lambda>f. (f, 0)) selected_features) \<and>
   map w_column (map widget_for (enumerate 0 selected_features)) = [0, 1, 2, 3, 0, 1, 2, 3, 0, 1]"
proof -
  have run: "collect_inputs (\<lambda>_. None) = Inr (map widget_for (enumerate 0 selected_features),
                                             map (\<lambda>f. (f, 0)) selected_features)"
    by (simp add: collect_inputs_eq field_value_def)
  show ?thesis using run widget_columns [OF run] by blast
qed

end
