(* ===== verification/App.thy ===== *)
theory App
  imports Predictor Risk Inputs
begin

text \<open>
  One run of the Streamlit script \<open>src/app.py\<close>, top to bottom. Streamlit reruns the
  whole script on every interaction; a run renders a list of elements and stops at
  the first uncaught exception, which Streamlit shows in place of the rest of the
  page.
  \<^item> lines 6--7: page configuration and logo; \<open>st.image\<close> reads \<open>kidney.jpeg\<close> from
    the working directory and, when it is missing, raises Streamlit's
    \<open>MediaFileStorageError\<close>, which ends the run there;
  \<^item> lines 10--11: \<open>pickle.load\<close> of the model and of the median table
    (\<open>load_artifacts\<close>; a missing file raises \<open>FileNotFoundError\<close>; the unpickled
    objects themselves are inputs of the model);
  \<^item> lines 41--53: title, text, the four columns and the ten number inputs;
  \<^item> lines 56--79: the button; on the run it was clicked, vectorize, predict, show
    the alert (\<open>predict_click\<close>);
  \<^item> lines 82--90: divider and the About expander.
  \<open>wf_page\<close> is the shape every run's page has; the lemmas after the definitions
  characterize the failures of the prediction block and when a click shows an alert.
\<close>

subsection \<open>Definitions\<close>

record artifacts =
  model :: "rat classifier"
  median_values :: "(feature, rat) pydict"

text \<open>The files the run opens, as it finds them on disk: whether the logo image is there
  (line 7), and the two pickle files, already unpickled (lines 10--11).\<close>
record files =
  logo_file :: bool
  model_file :: "rat classifier option"
  median_file :: "(feature, rat) pydict option"

definition load_artifacts :: "files \<Rightarrow> py_error + artifacts" where
  "load_artifacts fs =
     (case model_file fs of
        None \<Rightarrow> Inl (FileNotFoundError ''xgb_ckd_model'')
      | Some m \<Rightarrow>
          (case median_file fs of
             None \<Rightarrow> Inl (FileNotFoundError ''median_values.pkl'')
           | Some med \<Rightarrow> Inr \<lparr>model = m, median_values = med\<rparr>))"

text \<open>Lines 58--79, on the \<open>input_data\<close> the form produced.\<close>
definition predict_click :: "artifacts \<Rightarrow> (feature, rat) pydict \<Rightarrow> py_error + alert \<times> string" where
  "predict_click art input_data =
     (case feature_names_attr (model art) of
        Inl e \<Rightarrow> Inl e
      | Inr full_features \<Rightarrow>
          (case vectorize full_features (median_values art) input_data of
             Inl e \<Rightarrow> Inl e
           | Inr row \<Rightarrow>
               (case predict_one (model art) row of
                  Inl e \<Rightarrow> Inl e
                | Inr (prediction, prediction_proba) \<Rightarrow>
                    Inr (show_result prediction (f32_value prediction_proba)))))"

datatype element =
    Page_config
  | Logo
  | Title
  | Intro_text
  | Subheader
  | Columns nat
  | Number_input widget
  | Predict_button
  | Alert alert string
  | Exception py_error
  | Divider
  | About_expander

definition page_footer :: "element list" where
  "page_footer = [Divider, About_expander]"

text \<open>One run: the files on disk, the form's state, whether this run is the one the
  button's click triggered (\<open>st.button\<close> returns \<open>True\<close> on that run only).\<close>
definition app_run :: "files \<Rightarrow> form \<Rightarrow> bool \<Rightarrow> element list" where
  "app_run fs form clicked =
     Page_config #
     (if logo_file fs then
        Logo #
        (case load_artifacts fs of
           Inl e \<Rightarrow> [Exception e]
         | Inr art \<Rightarrow>
             [Title, Intro_text, Subheader, Columns num_columns] @
             (case collect_inputs form of
                Inl e \<Rightarrow> [Exception e]
              | Inr (widgets, input_data) \<Rightarrow>
                  map Number_input widgets @ [Predict_button] @
                  (if clicked then
                     (case predict_click art input_data of
                        Inl e \<Rightarrow> [Exception e]
                      | Inr (a, msg) \<Rightarrow> Alert a msg # page_footer)
                   else page_footer)))
      else [Exception (MediaFileStorageError ''kidney.jpeg'')])"

text \<open>A concrete configuration for the witnesses: a model that needs \<open>age\<close>,
  \<open>hemo\<close> and \<open>bu\<close> (blood urea, not on the form) and predicts CKD with
  probability \<open>float32(0.92)\<close>.\<close>
definition demo_model :: "rat classifier" where
  "demo_model = \<lparr>feature_names_in = [''age'', ''hemo'', ''bu''], has_feature_names = True, predict = (\<lambda>_. 1),
                 predict_proba = (\<lambda>_. [0x3DA3D70A, 0x3F6B851F])\<rparr>"

definition nameless_model :: "rat classifier" where
  "nameless_model = demo_model\<lparr>has_feature_names := False\<rparr>"

definition demo_files :: files where
  "demo_files = \<lparr>logo_file = True, model_file = Some demo_model, median_file = Some [(''bu'', 44)]\<rparr>"

declare load_artifacts_def [model_defs] predict_click_def [model_defs] page_footer_def [model_defs]
  app_run_def [model_defs] demo_model_def [model_defs] nameless_model_def [model_defs] demo_files_def [model_defs]

text \<open>The shape every page of a run has: it opens with the page configuration (as
  Streamlit requires of \<open>set_page_config\<close>); it ends with the footer or with one exception, and no exception is drawn
  before its last element; it holds at most one alert, none on a run the button did not
  trigger.\<close>
definition is_alert :: "element \<Rightarrow> bool" where
  "is_alert x = (case x of Alert _ _ \<Rightarrow> True | _ \<Rightarrow> False)"

definition is_exception :: "element \<Rightarrow> bool" where
  "is_exception x = (case x of Exception _ \<Rightarrow> True | _ \<Rightarrow> False)"

definition wf_page :: "bool \<Rightarrow> element list \<Rightarrow> bool" where
  "wf_page clicked p \<longleftrightarrow>
     take 1 p = [Page_config] \<and>
     (drop (length p - 2) p = page_footer \<or> is_exception (last p)) \<and>
     \<not> list_ex is_exception (butlast p) \<and>
     length (filter is_alert p) \<le> (if clicked then 1 else 0)"

declare is_alert_def [model_defs] is_exception_def [model_defs] wf_page_def [model_defs]

subsection \<open>Lemmas\<close>

text \<open>A run with both files present renders the header, the ten inputs and the button,
  then whatever the click adds.\<close>
lemma app_run_loaded:
  assumes "load_artifacts fs = Inr art" and "logo_file fs"
  shows "app_run fs form clicked =
    [Page_config, Logo, Title, Intro_text, Subheader, Columns num_columns] @
    map Number_input (map widget_for (enumerate 0 selected_features)) @ [Predict_button] @
    (if clicked then
       (case predict_click art (map (\<lambda>f. (f, field_value form f)) selected_features) of
          Inl e \<Rightarrow> [Exception e]
        | Inr (a, msg) \<Rightarrow> Alert a msg # page_footer)
     else page_footer)"
  using assms by (simp add: app_run_def collect_inputs_eq)

lemma predict_click_Inr:
  assumes "vectorize (feature_names_in (model art)) (median_values art) input_data = Inr row"
    and "2 \<le> length (predict_proba (model art) row)"
    and "has_feature_names (model art)"
  shows "predict_click art input_data =
           Inr (show_result (predict (model art) row) (f32_value (predict_proba (model art) row ! 1)))"
proof -
  from assms(1) have "map fst row = feature_names_in (model art)"
    by (auto simp: vectorize_facts comp_def)
  with assms show ?thesis by (simp add: predict_click_def feature_names_attr_def predict_one_Inr)
qed

lemma model_inputs_keys [simp]: "dict_keys (map (\<lambda>f. (f, g f)) xs) = xs"
  by (induction xs) simp_all

text \<open>Lines 58--70 fail exactly when the model has no feature names, the vectorizer
  fails, or the model has fewer than two classes; XGBoost's feature-name check never
  fires on the vectorized row.\<close>
lemma predict_click_Inl_iff:
  "predict_click art input = Inl e \<longleftrightarrow>
   \<not> has_feature_names (model art) \<and> e = AttributeError ''feature_names_in_'' \<or>
   has_feature_names (model art) \<and>
     vectorize (feature_names_in (model art)) (median_values art) input = Inl e \<or>
   has_feature_names (model art) \<and>
     (\<exists>row. vectorize (feature_names_in (model art)) (median_values art) input = Inr row \<and>
            length (predict_proba (model art) row) < 2 \<and> e = IndexError)"
proof (cases "has_feature_names (model art)")
  case False
  then show ?thesis by (auto simp: predict_click_def feature_names_attr_def)
next
  case True
  show ?thesis
  proof (cases "vectorize (feature_names_in (model art)) (median_values art) input")
    case (Inl e')
    with True show ?thesis by (simp add: predict_click_def feature_names_attr_def)
  next
    case (Inr row)
    then have "map fst row = feature_names_in (model art)"
      by (auto simp: vectorize_facts comp_def)
    with Inr True show ?thesis
      by (auto simp: predict_click_def feature_names_attr_def predict_one_def validate_features_def
          Let_def split: prod.splits)
  qed
qed

text \<open>A successful prediction block vectorized the form, found two class probabilities
  and showed the result of the model's label and class-1 probability.\<close>
lemma predict_click_Inr_cases:
  assumes "predict_click art input = Inr r"
  shows "\<exists>row. vectorize (feature_names_in (model art)) (median_values art) input = Inr row \<and>
           2 \<le> length (predict_proba (model art) row) \<and>
           r = show_result (predict (model art) row) (f32_value (predict_proba (model art) row ! 1))"
  using assms
  by (auto simp: predict_click_def feature_names_attr_def predict_one_Inr_iff split: sum.splits if_splits prod.splits)

text \<open>An alert on a clicked run is the prediction of that run's form.\<close>
lemma alert_in_click_run:
  assumes "Alert a msg \<in> set (app_run fs form True)"
  shows "\<exists>art. load_artifacts fs = Inr art \<and>
           predict_click art (map (\<lambda>f. (f, field_value form f)) selected_features) = Inr (a, msg)"
  using assms by (auto simp: app_run_def collect_inputs_eq page_footer_def split: sum.splits prod.splits if_splits)

text \<open>With artifacts that cover every model feature and a model of two classes, a click
  always shows an alert.\<close>
lemma click_run_alert:
  assumes "load_artifacts fs = Inr art"
    and "set (feature_names_in (model art)) \<subseteq> set selected_features \<union> set (dict_keys (median_values art))"
    and "\<forall>row. 2 \<le> length (predict_proba (model art) row)"
    and "has_feature_names (model art)" and "logo_file fs"
  shows "\<exists>a msg. Alert a msg \<in> set (app_run fs form True)"
proof -
  obtain row where v: "vectorize (feature_names_in (model art)) (median_values art)
      (map (\<lambda>f. (f, field_value form f)) selected_features) = Inr row"
    using vectorize_covered [of "feature_names_in (model art)"
        "map (\<lambda>f. (f, field_value form f)) selected_features" "median_values art"] assms(2)
    by auto
  obtain a msg where "predict_click art (map (\<lambda>f. (f, field_value form f)) selected_features) = Inr (a, msg)"
    using predict_click_Inr [OF v] assms(3,4) by (metis surj_pair)
  then show ?thesis by (auto simp: app_run_loaded [OF assms(1,5)])
qed

subsection \<open>Properties of a run\<close>

text \<open>C7: on the run a click triggers, with the logo and both files present and the model's
  features all available, the page shows the header, the ten inputs, the button, one
  alert and the footer, and the alert's tier is the spec's tier of the model's label
  and probability.\<close>
theorem app_click_shows_tier:
  assumes "load_artifacts fs = Inr art"
    and "vectorize (feature_names_in (model art)) (median_values art)
           (map (\<lambda>f. (f, field_value form f)) selected_features) = Inr row"
    and "2 \<le> length (predict_proba (model art) row)"
    and "predict (model art) row \<in> {0, 1}"
    and "has_feature_names (model art)" and "logo_file fs"
  shows "\<exists>a msg. app_run fs form True =
           [Page_config, Logo, Title, Intro_text, Subheader, Columns num_columns] @
           map Number_input (map widget_for (enumerate 0 selected_features)) @
           [Predict_button, Alert a msg, Divider, About_expander] \<and>
         risk_tier_spec (predict (model art) row) (f32_value (predict_proba (model art) row ! 1)) =
           Some (tier_of_alert a)"
proof -
  let ?l = "predict (model art) row" and ?p = "f32_value (predict_proba (model art) row ! 1)"
  have click: "predict_click art (map (\<lambda>f. (f, field_value form f)) selected_features) = Inr (show_result ?l ?p)"
    using assms(2,3,5) by (rule predict_click_Inr)
  have tier: "risk_tier_spec ?l ?p = Some (tier_of_alert (fst (show_result ?l ?p)))"
    using assms(4) by (rule tier_spec_show_result)
  show ?thesis
    using tier by (simp add: app_run_loaded [OF assms(1,6)] click page_footer_def split: prod.splits)
qed

text \<open>C8: an exception while predicting (a model without feature names, a required
  feature in neither the form nor the median table, a one-class model) is not caught: the
  page ends with the exception, shows no alert, and the rest of the page (divider,
  About section) is not rendered.\<close>
theorem app_error_halts:
  assumes "load_artifacts fs = Inr art"
    and "predict_click art (map (\<lambda>f. (f, field_value form f)) selected_features) = Inl e"
    and "logo_file fs"
  shows "last (app_run fs form True) = Exception e \<and> About_expander \<notin> set (app_run fs form True) \<and>
         (\<forall>a msg. Alert a msg \<notin> set (app_run fs form True))"
  using assms by (auto simp: app_run_loaded widget_for_def)

text \<open>C17: a run that was not triggered by the click shows the form and the footer,
  with no alert and no exception.\<close>
theorem app_not_clicked:
  assumes "load_artifacts fs = Inr art" and "logo_file fs"
  shows "app_run fs form False =
           [Page_config, Logo, Title, Intro_text, Subheader, Columns num_columns] @
           map Number_input (map widget_for (enumerate 0 selected_features)) @
           [Predict_button, Divider, About_expander]"
  using assms by (simp add: app_run_loaded page_footer_def)

text \<open>C18: without the model file, every run stops before any input or button: right
  after the logo with a \<open>FileNotFoundError\<close> naming the model file, or already at
  line 7, with Streamlit's media error naming the image, when the logo is missing too.\<close>
theorem app_missing_artifact:
  assumes "model_file fs = None"
  shows "app_run fs form clicked =
           (if logo_file fs then [Page_config, Logo, Exception (FileNotFoundError ''xgb_ckd_model'')]
            else [Page_config, Exception (MediaFileStorageError ''kidney.jpeg'')])"
  using assms by (simp add: app_run_def load_artifacts_def)

text \<open>C14: with XGBoost's own labelling rule, the three alerts split the probability
  range: "No CKD" only at \<open>p \<le> 0.5\<close>, so its "Confidence" figure is the probability
  of CKD and never above 50%; "Possible CKD" at \<open>0.5 < p < 0.85\<close>; "High Risk" at
  \<open>p \<ge> 0.85\<close>.\<close>
theorem shown_tier_probability:
  assumes "xgb_label_rule clf row" and "predict_one clf row = Inr (label, p)"
  shows "(fst (show_result label (f32_value p)) = St_success \<longrightarrow> f32_value p \<le> 1 / 2) \<and>
         (fst (show_result label (f32_value p)) = St_warning \<longrightarrow> 1 / 2 < f32_value p \<and> f32_value p < 17 / 20) \<and>
         (fst (show_result label (f32_value p)) = St_error \<longrightarrow> 17 / 20 \<le> f32_value p)"
proof -
  from assms(2) have lp: "label = predict clf row" "p = predict_proba clf row ! 1"
    by (simp_all add: predict_one_Inr_iff)
  with assms(1) have lab: "label = (if 1 / 2 < f32_value p then 1 else 0)"
    by (simp add: xgb_label_rule_def)
  show ?thesis
    using lab f32_threshold [of p] by (auto simp: show_result_def)
qed

text \<open>C22: every run, whatever the files, the form and the click, renders a
  well-formed page (\<open>wf_page\<close>): the page configuration first, then either the footer
  or a single exception at the very end, and at most one alert, none unless the button
  triggered the run; the logo is drawn exactly when its image file is there.\<close>
theorem app_run_wf:
  "wf_page clicked (app_run fs form clicked) \<and> (Logo \<in> set (app_run fs form clicked) \<longleftrightarrow> logo_file fs)"
  by (auto simp: wf_page_def app_run_def collect_inputs_eq page_footer_def is_alert_def is_exception_def
      filter_map comp_def list_ex_iff butlast_append widget_for_def split: sum.splits prod.splits)

text \<open>C23: the prediction block fails exactly when the model has no feature names
  (\<open>AttributeError\<close> at line 58), when the vectorizer fails (with its error) or when,
  on a vectorized row, the model returns fewer than two class probabilities
  (\<open>IndexError\<close> at \<open>[0][1]\<close>).\<close>
theorem predict_click_error:
  "predict_click art input = Inl e \<longleftrightarrow>
   \<not> has_feature_names (model art) \<and> e = AttributeError ''feature_names_in_'' \<or>
   has_feature_names (model art) \<and>
     vectorize (feature_names_in (model art)) (median_values art) input = Inl e \<or>
   has_feature_names (model art) \<and>
     (\<exists>row. vectorize (feature_names_in (model art)) (median_values art) input = Inr row \<and>
            length (predict_proba (model art) row) < 2 \<and> e = IndexError)"
  by (rule predict_click_Inl_iff)

text \<open>C27: with a model fitted without column names, every click ends the page at
  line 58 with XGBoost's \<open>AttributeError\<close>, before the median table or the form's
  values are looked at: no alert, no footer.\<close>
theorem app_nameless_model:
  assumes "load_artifacts fs = Inr art" and "\<not> has_feature_names (model art)" and "logo_file fs"
  shows "app_run fs form True =
           [Page_config, Logo, Title, Intro_text, Subheader, Columns num_columns] @
           map Number_input (map widget_for (enumerate 0 selected_features)) @
           [Predict_button, Exception (AttributeError ''feature_names_in_'')]"
  using assms by (simp add: app_run_loaded predict_click_def feature_names_attr_def)

subsection \<open>Witnesses\<close>

lemma demo_load: "load_artifacts demo_files = Inr \<lparr>model = demo_model, median_values = [(''bu'', 44)]\<rparr>"
  by (simp add: load_artifacts_def demo_files_def)

lemma demo_logo: "logo_file demo_files"
  by (simp add: demo_files_def)

lemma demo_vectorize:
  "vectorize (feature_names_in demo_model) [(''bu'', 44)]
     (map (\<lambda>f. (f, field_value (\<lambda>_. None) f)) selected_features) = Inr [(''age'', 0), (''hemo'', 0), (''bu'', 44)]"
  by (simp add: model_defs)

theorem app_click_shows_tier_witness:
  "\<exists>a msg. app_run demo_files (\<lambda>_. None) True =
     [Page_config, Logo, Title, Intro_text, Subheader, Columns num_columns] @
     map Number_input (map widget_for (enumerate 0 selected_features)) @
     [Predict_button, Alert a msg, Divider, About_expander] \<and>
     risk_tier_spec 1 (f32_value 0x3F6B851F) = Some (tier_of_alert a)"
  using app_click_shows_tier [OF demo_load, of "\<lambda>_. None", simplified, OF demo_vectorize]
  by (simp add: demo_model_def demo_logo)

theorem app_error_halts_witness:
  "last (app_run \<lparr>logo_file = True, model_file = Some demo_model, median_file = Some []\<rparr> (\<lambda>_. None) True) = Exception (KeyError ''bu'')"
proof -
  have load: "load_artifacts \<lparr>logo_file = True, model_file = Some demo_model, median_file = Some []\<rparr> =
      Inr \<lparr>model = demo_model, median_values = []\<rparr>"
    by (simp add: load_artifacts_def)
  have err: "predict_click \<lparr>model = demo_model, median_values = []\<rparr>
      (map (\<lambda>f. (f, field_value (\<lambda>_. None) f)) selected_features) = Inl (KeyError ''bu'')"
    by (simp add: model_defs)
  show ?thesis using app_error_halts [OF load err] by simp
qed

theorem app_not_clicked_witness:
  "app_run demo_files (\<lambda>_. None) False =
     [Page_config, Logo, Title, Intro_text, Subheader, Columns num_columns] @
     map Number_input (map widget_for (enumerate 0 selected_features)) @
     [Predict_button, Divider, About_expander]"
  using app_not_clicked [OF demo_load demo_logo] .

theorem app_missing_artifact_witness:
  "app_run \<lparr>logo_file = True, model_file = None, median_file = Some [(''bu'', 44)]\<rparr> (\<lambda>_. None) True =
     [Page_config, Logo, Exception (FileNotFoundError ''xgb_ckd_model'')]"
  using app_missing_artifact [of "\<lparr>logo_file = True, model_file = None, median_file = Some [(''bu'', 44)]\<rparr>"] by simp

theorem shown_tier_probability_witness:
  "xgb_label_rule demo_model [(''age'', 0), (''hemo'', 0), (''bu'', 44)] \<and>
   predict_one demo_model [(''age'', 0), (''hemo'', 0), (''bu'', 44)] = Inr (1, 0x3F6B851F) \<and>
   fst (show_result 1 (f32_value 0x3F6B851F)) = St_error \<and> 17 / 20 \<le> f32_value 0x3F6B851F"
proof -
  have v: "f32_value 0x3F6B851F = 15435039 / 2 ^ 24" by (simp add: model_defs)
  have rule: "xgb_label_rule demo_model [(''age'', 0), (''hemo'', 0), (''bu'', 44)]"
    by (simp add: xgb_label_rule_def demo_model_def v)
  have pred: "predict_one demo_model [(''age'', 0), (''hemo'', 0), (''bu'', 44)] = Inr (1, 0x3F6B851F)"
    by (simp add: predict_one_def validate_features_def demo_model_def)
  have alert: "fst (show_result 1 (f32_value 0x3F6B851F)) = St_error"
    by (simp add: show_result_def v high_risk_threshold_def)
  show ?thesis using rule pred alert shown_tier_probability [OF rule pred] by blast
qed

theorem app_run_wf_witness:
  "wf_page True (app_run demo_files (\<lambda>_. None) True) \<and>
   (Logo \<in> set (app_run demo_files (\<lambda>_. None) True) \<longleftrightarrow> logo_file demo_files)"
  by (rule app_run_wf)

lemma demo_art_covered:
  "set (feature_names_in (model \<lparr>model = demo_model, median_values = [(''bu'', 44)]\<rparr>)) \<subseteq>
     set selected_features \<union> set (dict_keys (median_values \<lparr>model = demo_model, median_values = [(''bu'', 44)]\<rparr>))"
  by (simp add: demo_model_def selected_features_def dict_keys_def)

lemma demo_art_names: "has_feature_names (model \<lparr>model = demo_model, median_values = [(''bu'', 44)]\<rparr>)"
  by (simp add: demo_model_def)

lemma demo_art_two_classes:
  "\<forall>row. 2 \<le> length (predict_proba (model \<lparr>model = demo_model, median_values = [(''bu'', 44)]\<rparr>) row)"
  by (simp add: demo_model_def)

theorem predict_click_error_witness:
  "predict_click \<lparr>model = nameless_model, median_values = []\<rparr> [] = Inl (AttributeError ''feature_names_in_'') \<and>
   \<not> has_feature_names (model \<lparr>model = nameless_model, median_values = []\<rparr>)"
  using predict_click_error [of "\<lparr>model = nameless_model, median_values = []\<rparr>" "[]" "AttributeError ''feature_names_in_''"]
  by (simp add: nameless_model_def)

theorem app_nameless_model_witness:
  "app_run \<lparr>logo_file = True, model_file = Some nameless_model, median_file = Some []\<rparr> (\<lambda>_. None) True =
     [Page_config, Logo, Title, Intro_text, Subheader, Columns num_columns] @
     map Number_input (map widget_for (enumerate 0 selected_features)) @
     [Predict_button, Exception (AttributeError ''feature_names_in_'')]"
proof -
  have load: "load_artifacts \<lparr>logo_file = True, model_file = Some nameless_model, median_file = Some []\<rparr> =
      Inr \<lparr>model = nameless_model, median_values = []\<rparr>"
    by (simp add: load_artifacts_def)
  have "\<not> has_feature_names (model \<lparr>model = nameless_model, median_values = []\<rparr>)"
    by (simp add: nameless_model_def)
  then show ?thesis using app_nameless_model [OF load] by simp
qed

end
