(* ===== verification/Session.thy ===== *)
theory Session
  imports App
begin

text \<open>
  Streamlit's rerun loop around \<open>src/app.py\<close>. The server keeps, per browser session,
  the values left in the widgets; each interaction updates that state and reruns the
  whole script (\<open>app_run\<close>), which rebuilds the page from scratch. Editing a number
  field reruns with the button unclicked; clicking the button reruns with
  \<open>st.button\<close> returning \<open>True\<close> for that run only. The files on disk may change
  between runs (a model replaced or removed); that triggers no rerun by itself.
  Nothing of the script's own survives a run: lines 10--11 reload the artifacts on
  every run, since no \<open>st.cache_resource\<close> is used.
  \<open>session_run\<close> is the loop as a function of the event sequence; \<open>reachable\<close> is the
  same loop as an inductive step relation on states and the page on screen, used to
  state what a session can still reach.
\<close>

subsection \<open>Definitions\<close>

datatype event =
    Edit_field "string \<times> string" rat
  | Click_predict
  | Replace_files files

record session =
  sess_files :: files
  sess_form :: form

text \<open>One event: the new session state and the page of the rerun it triggers, if any.\<close>
fun session_step :: "session \<Rightarrow> event \<Rightarrow> session \<times> element list option" where
  "session_step s (Edit_field wid v) =
     (let s' = s\<lparr>sess_form := (sess_form s)(wid \<mapsto> v)\<rparr>
      in (s', Some (app_run (sess_files s') (sess_form s') False)))"
| "session_step s Click_predict = (s, Some (app_run (sess_files s) (sess_form s) True))"
| "session_step s (Replace_files fs) = (s\<lparr>sess_files := fs\<rparr>, None)"

text \<open>A sequence of events: the final state and the pages rendered, in order.\<close>
fun session_run :: "session \<Rightarrow> event list \<Rightarrow> session \<times> element list list" where
  "session_run s [] = (s, [])"
| "session_run s (e # es) =
     (let (s', p) = session_step s e; (s'', ps) = session_run s' es
      in (s'', (case p of None \<Rightarrow> ps | Some pg \<Rightarrow> pg # ps)))"

text \<open>The page currently on screen: the last one rendered.\<close>
definition current_page :: "session \<Rightarrow> event list \<Rightarrow> element list option" where
  "current_page s es = (let ps = snd (session_run s es) in if ps = [] then None else Some (last ps))"

text \<open>The states a session can reach from \<open>s0\<close>, with the page on screen (\<open>None\<close>
  before the first run): an event that reruns the script replaces the page, a change of
  the files on disk leaves it.\<close>
inductive reachable :: "session \<Rightarrow> session \<Rightarrow> element list option \<Rightarrow> bool" for s0 :: session where
  start: "reachable s0 s0 None"
| step: "reachable s0 s p \<Longrightarrow> session_step s e = (s', r) \<Longrightarrow>
         reachable s0 s' (case r of None \<Rightarrow> p | Some q \<Rightarrow> Some q)"

definition demo_session :: session where
  "demo_session = \<lparr>sess_files = demo_files, sess_form = (\<lambda>_. None)\<rparr>"

declare current_page_def [model_defs] demo_session_def [model_defs]

subsection \<open>Lemmas\<close>

lemma session_run_append:
  "session_run s (es @ fs) =
     (let (s', ps) = session_run s es; (s'', qs) = session_run s' fs in (s'', ps @ qs))"
  by (induction s es rule: session_run.induct) (auto simp: Let_def split: prod.splits option.splits)

lemma session_step_form:
  "sess_form (fst (session_step s e)) =
     (case e of Edit_field wid v \<Rightarrow> (sess_form s)(wid \<mapsto> v) | _ \<Rightarrow> sess_form s)"
  by (cases e) (simp_all add: Let_def)

lemma session_step_files:
  "sess_files (fst (session_step s e)) = (case e of Replace_files fs \<Rightarrow> fs | _ \<Rightarrow> sess_files s)"
  by (cases e) (simp_all add: Let_def)

lemma alert_needs_click: "Alert a msg \<in> set (app_run fs form False) \<Longrightarrow> False"
  by (auto simp: app_run_def page_footer_def split: sum.splits prod.splits if_splits)

lemma session_run_last_edit:
  "\<exists>ps s'. session_run s (es @ [Edit_field wid v]) =
     (s'\<lparr>sess_form := (sess_form s')(wid \<mapsto> v)\<rparr>,
      ps @ [app_run (sess_files s') ((sess_form s')(wid \<mapsto> v)) False])"
  by (auto simp: session_run_append Let_def split: prod.splits)

text \<open>Without file changes, the files stay those of the start and the page on screen is
  a run of the script on the form the session holds now.\<close>
lemma page_tracks_form:
  assumes "list_all (\<lambda>e. case e of Replace_files _ \<Rightarrow> False | _ \<Rightarrow> True) es"
  shows "sess_files (fst (session_run s es)) = sess_files s \<and>
         (\<forall>p. current_page s es = Some p \<longrightarrow>
              (\<exists>c. p = app_run (sess_files s) (sess_form (fst (session_run s es))) c))"
  using assms
proof (induction es rule: rev_induct)
  case Nil
  then show ?case by (simp add: current_page_def)
next
  case (snoc e es)
  obtain s1 ps where run: "session_run s es = (s1, ps)" by (cases "session_run s es")
  from snoc run have f1: "sess_files s1 = sess_files s" by simp
  show ?case
  proof (cases e)
    case (Edit_field wid v)
    then show ?thesis using run f1 by (auto simp: session_run_append current_page_def Let_def fun_upd_def)
  next
    case Click_predict
    then show ?thesis using run f1 by (auto simp: session_run_append current_page_def)
  next
    case (Replace_files fs)
    with snoc.prems show ?thesis by simp
  qed
qed

subsection \<open>Properties of a session\<close>

text \<open>C19: nothing is cached across runs: a click after the files changed on disk is
  answered with the new files; with the model file removed, the next click's page
  stops at the \<open>FileNotFoundError\<close>, although the previous run had a model.\<close>
theorem session_no_artifact_cache:
  assumes "logo_file fs'" and "model_file fs' = None"
  shows "snd (session_run s [Click_predict, Replace_files fs', Click_predict]) =
           [app_run (sess_files s) (sess_form s) True,
            [Page_config, Logo, Exception (FileNotFoundError ''xgb_ckd_model'')]]"
  using assms by (simp add: app_run_def load_artifacts_def)

theorem session_no_artifact_cache_witness:
  "snd (session_run \<lparr>sess_files = demo_files, sess_form = (\<lambda>_. None)\<rparr>
          [Click_predict, Replace_files \<lparr>logo_file = True, model_file = None, median_file = Some []\<rparr>, Click_predict]) =
     [app_run demo_files (\<lambda>_. None) True,
      [Page_config, Logo, Exception (FileNotFoundError ''xgb_ckd_model'')]]"
  using session_no_artifact_cache [of "\<lparr>logo_file = True, model_file = None, median_file = Some []\<rparr>"
      "\<lparr>sess_files = demo_files, sess_form = (\<lambda>_. None)\<rparr>"]
  by simp

text \<open>C20: the prediction does not survive an edit: once any field is edited after a
  click, the page on screen has no alert.\<close>
theorem edit_clears_alert:
  "\<exists>p. current_page s (es @ [Edit_field wid v]) = Some p \<and> (\<forall>a msg. Alert a msg \<notin> set p)"
proof -
  obtain ps s' where run: "session_run s (es @ [Edit_field wid v]) =
      (s'\<lparr>sess_form := (sess_form s')(wid \<mapsto> v)\<rparr>,
       ps @ [app_run (sess_files s') ((sess_form s')(wid \<mapsto> v)) False])"
    using session_run_last_edit by blast
  show ?thesis
    using alert_needs_click by (auto simp: current_page_def run)
qed

text \<open>C24: a prediction on screen is never stale: as long as the files stay in place,
  an alert on the page on screen is exactly the prediction the session's artifacts give
  for the values the form holds now (an edit reruns the script, which removes it).\<close>
theorem alert_matches_form:
  assumes "list_all (\<lambda>e. case e of Replace_files _ \<Rightarrow> False | _ \<Rightarrow> True) es"
    and "current_page s es = Some p" and "Alert a msg \<in> set p"
    and "load_artifacts (sess_files s) = Inr art"
  shows "predict_click art (map (\<lambda>f. (f, field_value (sess_form (fst (session_run s es))) f)) selected_features) =
           Inr (a, msg)"
proof -
  obtain c where pc: "p = app_run (sess_files s) (sess_form (fst (session_run s es))) c"
    using page_tracks_form [OF assms(1)] assms(2) by blast
  with assms(3) have "c" by (cases c) (auto dest: alert_needs_click)
  with pc assms(3) have "Alert a msg \<in> set (app_run (sess_files s) (sess_form (fst (session_run s es))) True)"
    by simp
  then obtain art' where "load_artifacts (sess_files s) = Inr art'"
      "predict_click art' (map (\<lambda>f. (f, field_value (sess_form (fst (session_run s es))) f)) selected_features) =
         Inr (a, msg)"
    using alert_in_click_run by blast
  with assms(4) show ?thesis by simp
qed

text \<open>C25: a session never gets stuck without a prediction: from any reachable state,
  once files are in place (the logo image, a median table that covers the model's
  features outside the form, a model with two classes and its feature names), one
  click reaches a page with an alert.\<close>
theorem alert_reachable:
  assumes "reachable s0 s p"
    and "load_artifacts fs = Inr art"
    and "set (feature_names_in (model art)) \<subseteq> set selected_features \<union> set (dict_keys (median_values art))"
    and "\<forall>row. 2 \<le> length (predict_proba (model art) row)"
    and "has_feature_names (model art)" and "logo_file fs"
  shows "\<exists>q a msg. reachable s0 (s\<lparr>sess_files := fs\<rparr>) (Some q) \<and> Alert a msg \<in> set q"
proof -
  have "reachable s0 (s\<lparr>sess_files := fs\<rparr>) p"
    using reachable.step [OF assms(1), of "Replace_files fs"] by simp
  then have "reachable s0 (s\<lparr>sess_files := fs\<rparr>) (Some (app_run fs (sess_form s) True))"
    using reachable.step [of s0 "s\<lparr>sess_files := fs\<rparr>" p Click_predict] by simp
  then show ?thesis
    using click_run_alert [OF assms(2-6), of "sess_form s"] by blast
qed

text \<open>C29: the whole session refines the spec end to end: as long as the files stay in
  place, an alert on the page on screen shows the spec's risk tier (section 4.3, exact
  threshold 0.85) of the model's label and probability on the spec's feature vector
  (section 4.1) of the values the form holds now.\<close>
theorem session_refines_spec:
  assumes "list_all (\<lambda>e. case e of Replace_files _ \<Rightarrow> False | _ \<Rightarrow> True) es"
    and "current_page s es = Some p" and "Alert a msg \<in> set p"
    and "load_artifacts (sess_files s) = Inr art"
    and "\<forall>row. predict (model art) row \<in> {0, 1}"
  shows "\<exists>row. vector_spec (feature_names_in (model art)) (median_values art)
                 (map (\<lambda>f. (f, field_value (sess_form (fst (session_run s es))) f)) selected_features) = Inr row \<and>
               risk_tier_spec (predict (model art) row) (f32_value (predict_proba (model art) row ! 1)) =
                 Some (tier_of_alert a)"
proof -
  let ?input = "map (\<lambda>f. (f, field_value (sess_form (fst (session_run s es))) f)) selected_features"
  obtain c where pc: "p = app_run (sess_files s) (sess_form (fst (session_run s es))) c"
    using page_tracks_form [OF assms(1)] assms(2) by blast
  with assms(3) have "c" by (cases c) (auto dest: alert_needs_click)
  with pc assms(3) have "Alert a msg \<in> set (app_run (sess_files s) (sess_form (fst (session_run s es))) True)"
    by simp
  then obtain art' where "load_artifacts (sess_files s) = Inr art'" "predict_click art' ?input = Inr (a, msg)"
    using alert_in_click_run by blast
  with assms(4) have "predict_click art ?input = Inr (a, msg)" by simp
  then obtain row where v: "vectorize (feature_names_in (model art)) (median_values art) ?input = Inr row"
    and r: "(a, msg) = show_result (predict (model art) row) (f32_value (predict_proba (model art) row ! 1))"
    using predict_click_Inr_cases by blast
  have "risk_tier_spec (predict (model art) row) (f32_value (predict_proba (model art) row ! 1)) =
      Some (tier_of_alert a)"
    using tier_spec_show_result [of "predict (model art) row" "predict_proba (model art) row ! 1"] assms(5) r
    by (metis fst_conv)
  with v show ?thesis by (auto simp: vectorize_eq_vector_spec)
qed

subsection \<open>Witnesses\<close>

theorem alert_reachable_witness:
  "\<exists>q a msg. reachable demo_session (demo_session\<lparr>sess_files := demo_files\<rparr>) (Some q) \<and> Alert a msg \<in> set q"
  using alert_reachable [OF reachable.start demo_load demo_art_covered demo_art_two_classes demo_art_names demo_logo] .
theorem alert_matches_form_witness:
  "\<exists>a msg p. list_all (\<lambda>e. case e of Replace_files _ \<Rightarrow> False | _ \<Rightarrow> True) [Click_predict] \<and>
     current_page demo_session [Click_predict] = Some p \<and> Alert a msg \<in> set p \<and>
     load_artifacts (sess_files demo_session) = Inr \<lparr>model = demo_model, median_values = [(''bu'', 44)]\<rparr> \<and>
     predict_click \<lparr>model = demo_model, median_values = [(''bu'', 44)]\<rparr>
       (map (\<lambda>f. (f, field_value (sess_form (fst (session_run demo_session [Click_predict]))) f)) selected_features) =
       Inr (a, msg)"
proof -
  have ne: "list_all (\<lambda>e. case e of Replace_files _ \<Rightarrow> False | _ \<Rightarrow> True) [Click_predict]" by simp
  have cp: "current_page demo_session [Click_predict] = Some (app_run demo_files (\<lambda>_. None) True)"
    by (simp add: current_page_def demo_session_def)
  have ld: "load_artifacts (sess_files demo_session) = Inr \<lparr>model = demo_model, median_values = [(''bu'', 44)]\<rparr>"
    using demo_load by (simp add: demo_session_def)
  obtain a msg where al: "Alert a msg \<in> set (app_run demo_files (\<lambda>_. None) True)"
    using click_run_alert [OF demo_load demo_art_covered demo_art_two_classes demo_art_names demo_logo] by blast
  show ?thesis
    using ne cp al ld alert_matches_form [OF ne cp al ld] by blast
qed

theorem session_refines_spec_witness:
  "\<exists>a msg p. list_all (\<lambda>e. case e of Replace_files _ \<Rightarrow> False | _ \<Rightarrow> True) [Click_predict] \<and>
     current_page demo_session [Click_predict] = Some p \<and> Alert a msg \<in> set p \<and>
     load_artifacts (sess_files demo_session) = Inr \<lparr>model = demo_model, median_values = [(''bu'', 44)]\<rparr> \<and>
     (\<forall>row. predict (model \<lparr>model = demo_model, median_values = [(''bu'', 44)]\<rparr>) row \<in> {0, 1}) \<and>
     (\<exists>row. vector_spec (feature_names_in (model \<lparr>model = demo_model, median_values = [(''bu'', 44)]\<rparr>))
               (median_values \<lparr>model = demo_model, median_values = [(''bu'', 44)]\<rparr>)
               (map (\<lambda>f. (f, field_value (sess_form (fst (session_run demo_session [Click_predict]))) f))
                  selected_features) = Inr row \<and>
             risk_tier_spec (predict (model \<lparr>model = demo_model, median_values = [(''bu'', 44)]\<rparr>) row)
               (f32_value (predict_proba (model \<lparr>model = demo_model, median_values = [(''bu'', 44)]\<rparr>) row ! 1)) =
               Some (tier_of_alert a))"
proof -
  have ne: "list_all (\<lambda>e. case e of Replace_files _ \<Rightarrow> False | _ \<Rightarrow> True) [Click_predict]" by simp
  have cp: "current_page demo_session [Click_predict] = Some (app_run demo_files (\<lambda>_. None) True)"
    by (simp add: current_page_def demo_session_def)
  have ld: "load_artifacts (sess_files demo_session) = Inr \<lparr>model = demo_model, median_values = [(''bu'', 44)]\<rparr>"
    using demo_load by (simp add: demo_session_def)
  have bin: "\<forall>row. predict (model \<lparr>model = demo_model, median_values = [(''bu'', 44)]\<rparr>) row \<in> {0, 1}"
    by (simp add: demo_model_def)
  obtain a msg where al: "Alert a msg \<in> set (app_run demo_files (\<lambda>_. None) True)"
    using click_run_alert [OF demo_load demo_art_covered demo_art_two_classes demo_art_names demo_logo] by blast
  show ?thesis
    using ne cp al ld bin session_refines_spec [OF ne cp al ld bin] by blast
qed

end
