(* ===== verification/Spec2Isabelle.thy ===== *)
theory Spec2Isabelle
  imports Session
begin

text \<open>
  \<^bold>\<open>A verification model of the CKD predictor (\<open>src/app.py\<close>).\<close>

  \<^bold>\<open>The program.\<close> One Streamlit script, rerun top to bottom on every interaction.
  A run configures the page and draws the logo image \<open>kidney.jpeg\<close> (lines 6--7),
  loads a pickled XGBoost classifier and a table of median feature values
  (lines 10--11), draws ten numeric fields for the "top" features (lines 44--53),
  and, on the run triggered by the Predict button (line 56), fills every feature the
  model needs and the form lacks with its median (lines 58--63), orders the
  one-row frame as the model was trained (line 66), asks the model for a label and a
  \<open>float32\<close> probability (lines 69--70) and shows one of three alerts with the
  probability as a percentage (lines 72--79). Data flows one way: form, vectorizer,
  predictor, risk classifier, page. Any uncaught exception ends the run where it is
  raised.

  \<^bold>\<open>Theories and what they model.\<close>
  \<^item> \<open>Prelude\<close>: Python exceptions (\<open>py_error\<close>, errors as \<open>Inl\<close> of a sum), Python
    dicts as insertion-ordered association lists (\<open>dict_set\<close>, \<open>dict_get\<close>,
    \<open>dict_getitem\<close> raising \<open>KeyError\<close>, \<open>dict_of_list\<close> for a dict display),
    round-half-even and decimal digits, a list lemma on first duplicates; the
    collection \<open>model_defs\<close> of definitions unfolded to evaluate a concrete run.
  \<^item> \<open>Floats\<close>: the numeric types the code really uses. A probability is a
    \<open>float32\<close> bit pattern (\<open>32 word\<close>) decoded exactly by \<open>f32_value\<close>;
    \<open>round_binary64\<close> is round-to-nearest-even to a double; \<open>format_percent\<close> is
    CPython's \<open>format(p, '.2%')\<close>: multiply by 100 in double arithmetic, print with two
    correctly rounded decimals (\<open>fixed2\<close>). Lemmas: the binade and rounding facts,
    exactness of \<open>round_binary64\<close> on short significands, the \<open>float32\<close> grid above
    1/2, the print/read round trip of \<open>fixed2\<close> with its error bound.
  \<^item> \<open>Catalog\<close> (lines 13--38, 51): \<open>selected_features\<close>, \<open>feature_descriptions\<close>,
    \<open>describe\<close> (the \<open>.get\<close> with its fallback); \<open>sg\<close> has no entry.
  \<^item> \<open>Inputs\<close> (lines 44--53): the loop as \<open>input_loop\<close>, threading the widgets
    placed so far and \<open>input_data\<close>; \<open>number_input\<close> returns the form's value or the
    default \<open>0.0\<close> and raises Streamlit's \<open>DuplicateWidgetID\<close> on a repeated widget
    identity; \<open>cols[i % 4]\<close> as the column index.
  \<^item> \<open>Vectorizer\<close> (lines 58--66), generic in the value type: \<open>fill_missing\<close> is the
    backfill loop mutating \<open>input_data\<close> (threaded as state), \<open>select_columns\<close> is
    \<open>pd.DataFrame([d])[cols]\<close> with pandas's error on missing columns, \<open>vectorize\<close>
    their composition. \<open>vector_spec\<close> is the contract of spec section 4.1, stated
    without loops.
  \<^item> \<open>Predictor\<close> (lines 58, 69--70): the classifier as a record of its three
    members, a parameter of every theorem; \<open>feature_names_attr\<close>, the property
    \<open>feature_names_in_\<close> that raises \<open>AttributeError\<close> for a booster without
    recorded names (\<open>has_feature_names\<close>); \<open>predict_one\<close> with XGBoost's feature-name
    validation and the \<open>IndexError\<close> of \<open>[0][1]\<close>; \<open>xgb_label_rule\<close>, how XGBoost
    labels a binary model.
  \<^item> \<open>Risk\<close> (lines 72--79): \<open>show_result\<close>, the nested \<open>if\<close> returning the Streamlit
    element kind and its text; \<open>high_risk_threshold\<close> the exact value of the double
    \<open>0.85\<close>; \<open>risk_tier_spec\<close> the spec's tiers with the exact \<open>0.85\<close>.
  \<^item> \<open>App\<close> (the whole script): \<open>files\<close>, what the run finds on disk (the logo image,
    the two pickles); \<open>load_artifacts\<close> (lines 10--11), \<open>predict_click\<close>
    (lines 58--79) and \<open>app_run\<close>, one run as the list of rendered elements. Line 7
    raises Streamlit's \<open>MediaFileStorageError\<close> when \<open>kidney.jpeg\<close> is missing, and
    the run stops there, before the pickles are opened. \<open>wf_page\<close> is the shape of
    every page.
  \<^item> \<open>Session\<close> (Streamlit's rerun loop): a session holds the files on disk and the
    widget values; \<open>session_step\<close> applies one interaction (edit a field, click,
    files replaced) and reruns the script; \<open>session_run\<close> folds a list of them;
    \<open>reachable\<close> is the same loop as an inductive relation on the session state and
    the page on screen.

  \<^bold>\<open>What is proved.\<close> Refinement: the backfill loop and the column selection
  compute exactly \<open>vector_spec\<close>, errors included (C2); the alert shown is the spec's
  tier with the exact threshold on every \<open>float32\<close> probability (C1), and NumPy 1
  and NumPy 2 readings of \<open>>= 0.85\<close> agree (C21); end to end, while the files stay,
  the alert on screen is the spec's tier of the model's output on the spec's vector
  of the form's current values (C29). Functional behaviour: user values win over
  defaults (C3), defaults fill the rest (C4), the row has the model's column order
  (C5); a clicked run shows the page and the spec tier (C7), an unclicked one no
  alert (C17); the alert texts on the spec's scenarios (C13); the tiers under
  XGBoost's labelling split the probability at 0.5 and 0.85, so the "No CKD"
  confidence is at most 50% (C14); the form yields every selected feature with its
  field value or \<open>0.0\<close> (C15) and its fields go round the four columns (C16).
  Errors: the vectorizer fails exactly with the \<open>KeyError\<close> of the first feature in
  neither table (C6); the prediction block fails exactly with \<open>AttributeError\<close>,
  the vectorizer's error or \<open>IndexError\<close> (C23); a nameless model ends every click
  with \<open>AttributeError\<close> (C27); the input loop raises \<open>DuplicateWidgetID\<close> exactly
  at the first repeated identity (C28); an exception ends the page (C8); a missing
  model file or image stops every run before any input (C18). Invariants: backfill
  only appends (C10), vectorizing is idempotent (C9), every page is well formed and
  has the logo exactly when its image exists (C22). Bounds and round trips: the double
  product \<open>100 * p\<close> is exact for a \<open>float32\<close> \<open>p\<close> (C12), the printed percentage
  is within 0.005 points of \<open>100 * p\<close> (C11), and the text has one to three digits,
  a point, two digits and \<open>%\<close> (C26). Sessions: no caching across reruns (C19), an
  edit clears the result (C20), an alert on screen is the prediction for the current
  form (C24), and from every reachable state good files and one click reach an alert
  (C25, liveness).

  \<^bold>\<open>Choices.\<close> No fuel and no partial functions are needed: every loop of the
  script runs over a finite list (\<open>fun\<close> by structural recursion), so each run ends;
  \<open>nbits\<close> is a \<open>function\<close> with the measure \<open>nat n\<close>. Liveness is stated as
  reachability in \<open>reachable\<close>: the session has no internal steps, so "eventually"
  means after the user's next events. Floats are exact rationals of their binary
  values; \<open>round_binary64\<close> covers the normal and subnormal ranges and not overflow,
  the values rounded here being at most 100. The \<open>float32\<close> decoding of infinities
  and NaN is not meaningful and is not used. \<open>show_result\<close> compares in double, as
  NumPy 1 does; C21 shows NumPy 2's \<open>float32\<close> comparison decides the same. Emoji of
  the alert texts are left out (the theory is ASCII). The logo file is modelled by its
  presence only: its content is never read by the script.

  \<^bold>\<open>Not modelled.\<close> The unpickling itself and the files' contents (inputs of the
  model: a file is missing or holds the unpickled object, so corrupt or incompatible
  pickles and their \<open>UnpicklingError\<close> are outside the model), the imports of lines
  1--4, the classifier's internals (a parameter), the constant arguments of the
  styling calls (\<open>set_page_config\<close>, the titles and markdown texts, the About text,
  the image width: each call is one constructor of \<open>element\<close> in the script's order,
  and only \<open>st.image\<close> has an error path), Streamlit's removal of the state of
  widgets a run did not draw (after a run that failed before the fields, the values
  are kept here; no property depends on it), and concurrent sessions (each session
  is independent and the script shares no mutable state between them).
  Streamlit derives a widget's identity from its type and all its parameters; the ten
  inputs of line 52 share every parameter but label and tooltip (same step, format,
  default, no key), so identity by label and tooltip, as modelled, is exact.
\<close>

end
